theory Spec2Isabelle
  imports Main "HOL-Library.AList"
begin

section \<open>JavaScript values and strings\<close>

text \<open>
  Request bodies, socket payloads and classifier responses carry arbitrary JSON values.
  Only the distinctions the handlers test are kept: \<open>typeof v === 'string'\<close>, truthiness
  and strict equality with \<open>true\<close>.
\<close>

datatype jsval = JUndefined | JNull | JBool bool | JNum int | JStr string

fun truthy :: "jsval \<Rightarrow> bool" where
  "truthy JUndefined = False"
| "truthy JNull = False"
| "truthy (JBool b) = b"
| "truthy (JNum n) = (n \<noteq> 0)"
| "truthy (JStr s) = (s \<noteq> [])"

text \<open>
  A string is a sequence of code units below 256 (the Latin-1 range).
  \<open>String.prototype.trim\<close> removes white space and line terminators from both ends;
  in this range they are U+0009 to U+000D, U+0020 and U+00A0 (the further ones, such as
  U+FEFF and U+2028, lie above it).
\<close>

definition is_ws :: "char \<Rightarrow> bool" where
  "is_ws c = (c = CHR '' '' \<or> c = CHR 0x09 \<or> c = CHR 0x0A \<or> c = CHR 0x0B
              \<or> c = CHR 0x0C \<or> c = CHR 0x0D \<or> c = CHR 0xA0)"

definition trim :: "string \<Rightarrow> string" where
  "trim s = rev (dropWhile is_ws (rev (dropWhile is_ws s)))"

section \<open>Moderation gateway (middleware/moderationMiddleware.js)\<close>

text \<open>
  The outcome of the single \<open>axios.post\<close> of \<open>checkSexualContent\<close>. A response carries
  \<open>response.data\<close>: an object whose \<open>result\<close> property is the given value
  (\<open>JUndefined\<close> when absent), or a nullish body, on which reading \<open>.result\<close> throws a
  TypeError with the engine's message. A rejected request carries \<open>error.code\<close> (absent
  for errors that have none) and \<open>error.message\<close>.
\<close>

datatype resp_data = DataObj jsval | DataNullish string

record axios_error =
  err_code :: "string option"
  err_message :: string

datatype http_outcome = HttpResponse resp_data | HttpError axios_error

record moderation_result =
  is_sexual :: bool
  mr_message :: string
  mr_error :: jsval
  raw_response :: "resp_data option"

text \<open>
  \<open>ContentModerationService.checkSexualContent\<close>. The parameter \<open>post\<close> is the
  classifier endpoint: the outcome of POSTing \<open>{text}\<close>. The whole body is inside
  \<open>try\<close>/\<open>catch\<close>, so no exception leaves the method.
\<close>

definition moderation_catch :: "axios_error \<Rightarrow> moderation_result" where
  "moderation_catch e =
     (if err_code e = Some ''ECONNREFUSED'' \<or> err_code e = Some ''ETIMEDOUT''
      then \<lparr>is_sexual = False, mr_message = ''Moderation service unavailable - approved'',
            mr_error = JStr ''service_unavailable'', raw_response = None\<rparr>
      else \<lparr>is_sexual = False, mr_message = ''Moderation error - approved'',
            mr_error = JStr (err_message e), raw_response = None\<rparr>)"

definition service_checkSexualContent :: "(string \<Rightarrow> http_outcome) \<Rightarrow> jsval \<Rightarrow> moderation_result" where
  "service_checkSexualContent post text =
     (case text of
        JStr s \<Rightarrow>
          (if s = [] \<or> trim s = []
           then \<lparr>is_sexual = False, mr_message = ''Empty text - approved'',
                 mr_error = JNull, raw_response = None\<rparr>
           else (case post (trim s) of
                   HttpResponse (DataObj r) \<Rightarrow>
                     \<lparr>is_sexual = (r = JBool True),
                      mr_message = (if r = JBool True then ''Sexual content detected - blocked''
                                    else ''Content approved''),
                      mr_error = JUndefined, raw_response = Some (DataObj r)\<rparr>
                 | HttpResponse (DataNullish m) \<Rightarrow>
                     moderation_catch \<lparr>err_code = None, err_message = m\<rparr>
                 | HttpError e \<Rightarrow> moderation_catch e))
      | _ \<Rightarrow> \<lparr>is_sexual = False, mr_message = ''Empty text - approved'',
               mr_error = JNull, raw_response = None\<rparr>)"

text \<open>
  The exported helpers \<open>checkSexualContent\<close> and \<open>moderateSocketMessage\<close> wrap the method
  in a further \<open>try\<close>/\<open>catch\<close>; since the method traps every exception itself, they
  return its result.
\<close>

definition checkSexualContent :: "(string \<Rightarrow> http_outcome) \<Rightarrow> jsval \<Rightarrow> moderation_result" where
  "checkSexualContent post text = service_checkSexualContent post text"

definition moderateSocketMessage :: "(string \<Rightarrow> http_outcome) \<Rightarrow> jsval \<Rightarrow> moderation_result" where
  "moderateSocketMessage post content = service_checkSexualContent post content"

section \<open>Data model (Models/Chat.js, Models/Message.js, Models/User.js)\<close>

text \<open>
  Documents are kept in collections: association lists from the document id to the
  document, read with \<open>findById\<close>. Identifiers are taken to be well-formed ObjectId
  strings and dates are milliseconds since the epoch.
\<close>

record participant =
  p_user :: string
  p_role :: string
  p_isActive :: bool

record chat =
  chatType :: string
  participants :: "participant list"
  c_isActive :: bool
  lastMessage :: "string option"
  lastActivity :: int

record read_receipt =
  rr_user :: string
  readAt :: int

record reaction =
  r_user :: string
  r_emoji :: string
  r_createdAt :: int

record message =
  content :: string
  messageType :: string
  sender :: string
  m_chat :: string
  replyTo :: "string option"
  isEdited :: bool
  editedAt :: "int option"
  isDeleted :: bool
  readBy :: "read_receipt list"
  reactions :: "reaction list"
  createdAt :: int

record user =
  username :: string
  fullName :: "string option"
  email :: string
  parentEmail :: "string option"
  isOnline :: bool
  lastSeen :: int

definition findById :: "(string \<times> 'a) list \<Rightarrow> string \<Rightarrow> 'a option" where
  "findById coll i = map_of coll i"

text \<open>\<open>chatSchema.methods.isParticipant\<close>: some participant entry is the user and is active.\<close>

definition isParticipant :: "chat \<Rightarrow> string \<Rightarrow> bool" where
  "isParticipant c userId =
     list_ex (\<lambda>p. p_user p \<noteq> [] \<and> p_user p = userId \<and> p_isActive p) (participants c)"

text \<open>
  The validators of the message schema that \<open>save\<close> runs: \<open>content\<close> is required and at
  most 1000 characters, \<open>messageType\<close> is one of the enumerated kinds.
\<close>

definition validate_message :: "message \<Rightarrow> bool" where
  "validate_message m =
     (content m \<noteq> [] \<and> length (content m) \<le> 1000
      \<and> messageType m \<in> set [''text'', ''image'', ''file'', ''system''])"

section \<open>Environment, events and server state\<close>

text \<open>
  What a handler reads from outside the process: the classifier endpoint, the clock
  (\<open>Date.now()\<close>), the ObjectId generated for a new document, whether the mail transport
  delivers to an address, and whether the Socket.IO server is registered on the Express
  app (\<open>req.app.get('io')\<close>).
\<close>

record env =
  post_check :: "string \<Rightarrow> http_outcome"
  date_now :: int
  new_id :: string
  mail_delivers :: "string \<Rightarrow> bool"
  io_attached :: bool

text \<open>
  An emission names its target: the socket itself (\<open>socket.emit\<close>), a room
  (\<open>io.to(room).emit\<close>), or a room without the emitting socket
  (\<open>socket.to(room).emit\<close>).
\<close>

datatype target = ToSocket string | ToRoom string | ToRoomExcept string string

datatype event =
    EvError string
  | EvMessageBlocked "string option" "string option"
  | EvNewMessage string message
  | EvMessageSent string
  | EvMessagesRead string "string list" string
  | EvUserJoinedChat string string
  | EvUserLeftChat string string
  | EvPresenceUpdate string bool int
  | EvMessageEdited string message
  | EvMessageReactionUpdated string "reaction list"

text \<open>The deferred task that \<open>setImmediate\<close> queues: content, sender, chat, content kind.\<close>

datatype task = ParentNotification string string string string

record alert_mail =
  mail_to :: string
  childName :: string
  childEmail :: string
  mail_contentType :: string
  mail_chatType :: string
  otherParticipants :: string
  contentPreview :: string

record incident =
  inc_type :: string
  inc_userId :: string
  inc_chatId :: string
  inc_content :: string
  parentNotified :: bool
  inc_timestamp :: int

record socket =
  sock_id :: string
  sock_userId :: string
  sock_username :: string

record server_state =
  connectedUsers :: "string \<rightharpoonup> string"
  userSockets :: "string \<rightharpoonup> string"
  rooms :: "string \<Rightarrow> string set"
  users :: "(string \<times> user) list"
  chats :: "(string \<times> chat) list"
  messages :: "(string \<times> message) list"
  outbox :: "(target \<times> event) list"
  immediates :: "task list"
  mails_sent :: "alert_mail list"
  incident_log :: "incident list"

definition emit :: "target \<Rightarrow> event \<Rightarrow> server_state \<Rightarrow> server_state" where
  "emit tgt ev st = st\<lparr>outbox := outbox st @ [(tgt, ev)]\<rparr>"

text \<open>The sockets an emission reaches, given the room membership at that moment.\<close>

fun recipients :: "(string \<Rightarrow> string set) \<Rightarrow> target \<Rightarrow> string set" where
  "recipients rs (ToSocket s) = {s}"
| "recipients rs (ToRoom r) = rs r"
| "recipients rs (ToRoomExcept r s) = rs r - {s}"

definition chat_room :: "string \<Rightarrow> string" where
  "chat_room chatId = ''chat_'' @ chatId"

definition user_room :: "string \<Rightarrow> string" where
  "user_room userId = ''user_'' @ userId"

section \<open>Content monitoring service (services/contentMonitoringService.js)\<close>

record monitoring =
  blocked :: bool
  mon_reason :: "string option"
  mon_message :: "string option"
  approved :: "bool option"

definition quickContentCheck :: "(string \<Rightarrow> http_outcome) \<Rightarrow> string \<Rightarrow> string \<Rightarrow> monitoring" where
  "quickContentCheck post c senderId =
     (let moderationResult = checkSexualContent post (JStr c) in
      if is_sexual moderationResult
      then \<lparr>blocked = True, mon_reason = Some ''sexual_content'',
            mon_message = Some ''Your message contains inappropriate content and has been blocked. Please keep conversations appropriate.'',
            approved = None\<rparr>
      else \<lparr>blocked = False, mon_reason = None, mon_message = None, approved = Some True\<rparr>)"

text \<open>
  \<open>monitorTextContent\<close> returns the verdict together with the tasks it has queued through
  \<open>sendParentNotificationAsync\<close>, whose only synchronous effect is the \<open>setImmediate\<close>
  call. The result is a sum because the caller guards the call with \<open>try\<close>/\<open>catch\<close>; the
  method traps its own exceptions, so it always returns.
\<close>

definition sendParentNotificationAsync :: "string \<Rightarrow> string \<Rightarrow> string \<Rightarrow> string \<Rightarrow> task list" where
  "sendParentNotificationAsync c senderId chatId contentType =
     [ParentNotification c senderId chatId contentType]"

definition monitorTextContent ::
  "(string \<Rightarrow> http_outcome) \<Rightarrow> string \<Rightarrow> string \<Rightarrow> string \<Rightarrow> string + (monitoring \<times> task list)" where
  "monitorTextContent post c senderId chatId =
     (let quickCheck = quickContentCheck post c senderId in
      if blocked quickCheck
      then Inr (quickCheck, sendParentNotificationAsync c senderId chatId ''text'')
      else Inr (\<lparr>blocked = False, mon_reason = None, mon_message = None, approved = Some True\<rparr>, []))"

text \<open>
  The body of the deferred task. Exceptions are \<open>Inl\<close>: reading \<open>p.user._id\<close> of a
  participant whose user document no longer exists (populated as null), and the mail
  helper, which rethrows a delivery failure. Both are inside the inner \<open>try\<close>.
\<close>

fun join_sep :: "string \<Rightarrow> string list \<Rightarrow> string" where
  "join_sep sep [] = []"
| "join_sep sep [x] = x"
| "join_sep sep (x # y # ys) = x @ sep @ join_sep sep (y # ys)"

fun populated_participants :: "(string \<times> user) list \<Rightarrow> participant list \<Rightarrow> string + (string \<times> user) list" where
  "populated_participants us [] = Inr []"
| "populated_participants us (p # ps) =
     (case findById us (p_user p) of
        None \<Rightarrow> Inl ''TypeError''
      | Some u \<Rightarrow>
          (case populated_participants us ps of
             Inl e \<Rightarrow> Inl e
           | Inr r \<Rightarrow> Inr ((p_user p, u) # r)))"

definition chatParticipants_of :: "(string \<times> user) list \<Rightarrow> chat option \<Rightarrow> string \<Rightarrow> string + string" where
  "chatParticipants_of us c senderId =
     (case c of
        None \<Rightarrow> Inr ''Unknown''
      | Some ch \<Rightarrow>
          (case populated_participants us (participants ch) of
             Inl e \<Rightarrow> Inl e
           | Inr ps \<Rightarrow> Inr (join_sep '', '' (map (\<lambda>(i, u). username u) (filter (\<lambda>(i, u). i \<noteq> senderId) ps)))))"

definition sendParentContentAlert :: "env \<Rightarrow> alert_mail \<Rightarrow> string + alert_mail" where
  "sendParentContentAlert env m =
     (if mail_delivers env (mail_to m) then Inr m
      else Inl ''Failed to send parent content alert email'')"

definition run_parent_notification :: "env \<Rightarrow> task \<Rightarrow> server_state \<Rightarrow> string + server_state" where
  "run_parent_notification env t st =
     (case t of ParentNotification c senderId chatId contentType \<Rightarrow>
        (case findById (users st) senderId of
           None \<Rightarrow> Inr st
         | Some sndr \<Rightarrow>
             (case parentEmail sndr of
                None \<Rightarrow> Inr st
              | Some pe \<Rightarrow>
                  if pe = [] then Inr st
                  else
                    let ch = findById (chats st) chatId;
                        attempt =
                          (case chatParticipants_of (users st) ch senderId of
                             Inl e \<Rightarrow> Inl e
                           | Inr others \<Rightarrow>
                               sendParentContentAlert env
                                 \<lparr>mail_to = pe,
                                  childName = (case fullName sndr of
                                                 None \<Rightarrow> username sndr
                                               | Some fn \<Rightarrow> if fn = [] then username sndr else fn),
                                  childEmail = email sndr,
                                  mail_contentType = contentType,
                                  mail_chatType = (case ch of None \<Rightarrow> ''unknown''
                                                   | Some c' \<Rightarrow> if chatType c' = [] then ''unknown'' else chatType c'),
                                  otherParticipants = others,
                                  contentPreview = (if contentType = ''text'' then take 50 c @ ''...''
                                                    else ''Image content'')\<rparr>);
                        st1 = (case attempt of
                                 Inl emailError \<Rightarrow> st
                               | Inr m \<Rightarrow> st\<lparr>mails_sent := mails_sent st @ [m]\<rparr>)
                    in Inr (st1\<lparr>incident_log := incident_log st1 @
                              [\<lparr>inc_type = contentType, inc_userId = senderId, inc_chatId = chatId,
                                inc_content = (if contentType = ''text'' then take 100 c @ ''...''
                                               else ''Image content''),
                                parentNotified = True, inc_timestamp = date_now env\<rparr>]\<rparr>))))"

text \<open>The event loop takes the first queued task and runs it.\<close>

definition run_next_immediate :: "env \<Rightarrow> server_state \<Rightarrow> string + server_state" where
  "run_next_immediate env st =
     (case immediates st of
        [] \<Rightarrow> Inr st
      | t # ts \<Rightarrow> run_parent_notification env t (st\<lparr>immediates := ts\<rparr>))"

section \<open>Socket service (services/socketService.js)\<close>

definition join_room :: "string \<Rightarrow> string \<Rightarrow> server_state \<Rightarrow> server_state" where
  "join_room sid r st = st\<lparr>rooms := (rooms st)(r := insert sid (rooms st r))\<rparr>"

definition leave_room :: "string \<Rightarrow> string \<Rightarrow> server_state \<Rightarrow> server_state" where
  "leave_room sid r st = st\<lparr>rooms := (rooms st)(r := rooms st r - {sid})\<rparr>"

text \<open>
  The query \<open>{'participants.user': userId, 'participants.isActive': true, isActive: true}\<close>:
  on an array of subdocuments each dotted condition is met by some element, not
  necessarily the same one.
\<close>

definition find_user_chats :: "(string \<times> chat) list \<Rightarrow> string \<Rightarrow> (string \<times> chat) list" where
  "find_user_chats cs userId =
     filter (\<lambda>(i, c). list_ex (\<lambda>p. p_user p = userId) (participants c)
                      \<and> list_ex p_isActive (participants c) \<and> c_isActive c) cs"

definition joinUserChats :: "socket \<Rightarrow> server_state \<Rightarrow> server_state" where
  "joinUserChats socket st =
     fold (\<lambda>(i, c). join_room (sock_id socket) (chat_room i))
          (find_user_chats (chats st) (sock_userId socket)) st"

text \<open>A JavaScript \<open>Set\<close> keeps its elements in the order of their first insertion.\<close>

definition insertion_order :: "'a list \<Rightarrow> 'a list" where
  "insertion_order xs = rev (remdups (rev xs))"

definition updateUserOnlineStatus :: "env \<Rightarrow> string \<Rightarrow> bool \<Rightarrow> server_state \<Rightarrow> server_state" where
  "updateUserOnlineStatus env userId online st =
     (let st1 = st\<lparr>users := map (\<lambda>(i, u). if i = userId
                                           then (i, u\<lparr>isOnline := online, lastSeen := date_now env\<rparr>)
                                           else (i, u)) (users st)\<rparr>;
          userChats = find_user_chats (chats st1) userId
      in if list_all (\<lambda>(i, c). list_all (\<lambda>p. findById (users st1) (p_user p) \<noteq> None) (participants c)) userChats
         then fold (\<lambda>contactId. emit (ToRoom (user_room contactId))
                                     (EvPresenceUpdate userId online (date_now env)))
                   (insertion_order
                      (filter (\<lambda>i. i \<noteq> userId)
                         (concat (map (\<lambda>(i, c). map p_user (participants c)) userChats))))
                   st1
         else st1)"

text \<open>The \<open>connection\<close> callback of \<open>setupSocketHandlers\<close>.\<close>

definition connection :: "env \<Rightarrow> socket \<Rightarrow> server_state \<Rightarrow> server_state" where
  "connection env socket st =
     (let st1 = st\<lparr>connectedUsers := (connectedUsers st)(sock_userId socket \<mapsto> sock_id socket),
                    userSockets := (userSockets st)(sock_id socket \<mapsto> sock_userId socket)\<rparr>;
          st2 = join_room (sock_id socket) (user_room (sock_userId socket)) st1;
          st3 = joinUserChats socket st2
      in updateUserOnlineStatus env (sock_userId socket) True st3)"

definition handleDisconnection :: "env \<Rightarrow> socket \<Rightarrow> server_state \<Rightarrow> server_state" where
  "handleDisconnection env socket st =
     updateUserOnlineStatus env (sock_userId socket) False
       (st\<lparr>connectedUsers := (connectedUsers st)(sock_userId socket := None),
           userSockets := (userSockets st)(sock_id socket := None)\<rparr>)"

text \<open>
  When a transport closes, Socket.IO takes the socket out of every room and then fires
  the \<open>disconnect\<close> listener, which calls \<open>handleDisconnection\<close>.
\<close>

definition disconnect :: "env \<Rightarrow> socket \<Rightarrow> server_state \<Rightarrow> server_state" where
  "disconnect env socket st =
     handleDisconnection env socket (st\<lparr>rooms := (\<lambda>r. rooms st r - {sock_id socket})\<rparr>)"

definition emitToUser :: "string \<Rightarrow> event \<Rightarrow> server_state \<Rightarrow> server_state" where
  "emitToUser userId ev st =
     (case connectedUsers st userId of
        None \<Rightarrow> st
      | Some socketId \<Rightarrow> if socketId = [] then st else emit (ToRoom (user_room userId)) ev st)"

definition emitToChat :: "string \<Rightarrow> event \<Rightarrow> server_state \<Rightarrow> server_state" where
  "emitToChat chatId ev st = emit (ToRoom (chat_room chatId)) ev st"

definition getUserStatus :: "server_state \<Rightarrow> string \<Rightarrow> bool" where
  "getUserStatus st userId = (connectedUsers st userId \<noteq> None)"

subsection \<open>The \<open>sendMessage\<close> listener\<close>

record send_data =
  sd_chatId :: string
  sd_content :: jsval
  sd_messageType :: "string option"
  sd_replyTo :: "string option"

text \<open>
  From the chat access check to the acknowledgement. \<open>save\<close> throws when the schema
  rejects the document, and the log line after \<open>populate\<close> reads
  \<open>newMessage.sender.username\<close>, which throws when the sender's user document is gone;
  the listener's outer \<open>catch\<close> answers both with the generic error.
\<close>

definition persist_and_broadcast ::
  "env \<Rightarrow> socket \<Rightarrow> string \<Rightarrow> string \<Rightarrow> string \<Rightarrow> string option \<Rightarrow> server_state \<Rightarrow> server_state" where
  "persist_and_broadcast env socket chatId c mtype reply_id st =
     (case findById (chats st) chatId of
        None \<Rightarrow> emit (ToSocket (sock_id socket)) (EvError ''Chat not found or access denied'') st
      | Some ch \<Rightarrow>
          if \<not> c_isActive ch \<or> \<not> isParticipant ch (sock_userId socket)
          then emit (ToSocket (sock_id socket)) (EvError ''Chat not found or access denied'') st
          else
            let newMessage = \<lparr>content = trim c, messageType = mtype, sender = sock_userId socket,
                               m_chat = chatId,
                               replyTo = (case reply_id of None \<Rightarrow> None
                                          | Some r \<Rightarrow> if r = [] then None else Some r),
                               isEdited = False, editedAt = None, isDeleted = False,
                               readBy = [], reactions = [], createdAt = date_now env\<rparr>
            in if \<not> validate_message newMessage
               then emit (ToSocket (sock_id socket)) (EvError ''Failed to send message'') st
               else
                 let st1 = st\<lparr>messages := messages st @ [(new_id env, newMessage)]\<rparr>
                 in (case findById (users st1) (sock_userId socket) of
                       None \<Rightarrow> emit (ToSocket (sock_id socket)) (EvError ''Failed to send message'') st1
                     | Some u \<Rightarrow>
                         let st2 = st1\<lparr>chats := AList.update chatId
                                                  (ch\<lparr>lastMessage := Some (new_id env),
                                                      lastActivity := date_now env\<rparr>) (chats st1)\<rparr>;
                             st3 = emit (ToRoom (chat_room chatId)) (EvNewMessage (new_id env) newMessage) st2
                         in emit (ToSocket (sock_id socket)) (EvMessageSent (new_id env)) st3))"

definition sendMessage_handler :: "env \<Rightarrow> socket \<Rightarrow> send_data \<Rightarrow> server_state \<Rightarrow> server_state" where
  "sendMessage_handler env socket d st =
     (let chatId = sd_chatId d;
          mtype = (case sd_messageType d of None \<Rightarrow> ''text'' | Some t \<Rightarrow> t)
      in if chatId = [] \<or> \<not> truthy (sd_content d)
         then emit (ToSocket (sock_id socket)) (EvError ''Chat ID and content are required'') st
         else (case sd_content d of
                 JStr c \<Rightarrow>
                   if trim c = []
                   then emit (ToSocket (sock_id socket)) (EvError ''Chat ID and content are required'') st
                   else if mtype = ''text''
                   then (case monitorTextContent (post_check env) c (sock_userId socket) chatId of
                           Inr (monitoring, queued) \<Rightarrow>
                             if blocked monitoring
                             then emit (ToSocket (sock_id socket))
                                    (EvMessageBlocked (mon_reason monitoring) (mon_message monitoring))
                                    (st\<lparr>immediates := immediates st @ queued\<rparr>)
                             else persist_and_broadcast env socket chatId c mtype (sd_replyTo d)
                                    (st\<lparr>immediates := immediates st @ queued\<rparr>)
                         | Inl monitoringError \<Rightarrow>
                             if is_sexual (moderateSocketMessage (post_check env) (JStr c))
                             then emit (ToSocket (sock_id socket))
                                    (EvMessageBlocked (Some ''sexual_content'')
                                       (Some ''Your message contains inappropriate content and has been blocked. Please keep conversations appropriate.''))
                                    st
                             else persist_and_broadcast env socket chatId c mtype (sd_replyTo d) st)
                   else persist_and_broadcast env socket chatId c mtype (sd_replyTo d) st
               | _ \<Rightarrow> emit (ToSocket (sock_id socket)) (EvError ''Failed to send message'') st))"

subsection \<open>The \<open>markMessagesRead\<close> listener\<close>

record read_data =
  rd_chatId :: string
  rd_messageIds :: "string list option"

definition addToSet :: "'a \<Rightarrow> 'a list \<Rightarrow> 'a list" where
  "addToSet x xs = (if x \<in> set xs then xs else xs @ [x])"

text \<open>
  \<open>Message.updateMany\<close> with the filter \<open>_id \<in> messageIds\<close>, \<open>chat = chatId\<close> and
  \<open>'readBy.user': {$ne: userId}\<close> (no receipt of the message names the user), and the
  update \<open>$addToSet\<close> of a receipt stamped with the current time.
\<close>

definition mark_read_filter :: "string \<Rightarrow> string list \<Rightarrow> string \<Rightarrow> string \<Rightarrow> message \<Rightarrow> bool" where
  "mark_read_filter chatId ids userId i m =
     (i \<in> set ids \<and> m_chat m = chatId \<and> \<not> list_ex (\<lambda>r. rr_user r = userId) (readBy m))"

definition updateMany :: "(string \<Rightarrow> 'a \<Rightarrow> bool) \<Rightarrow> ('a \<Rightarrow> 'a) \<Rightarrow> (string \<times> 'a) list \<Rightarrow> (string \<times> 'a) list" where
  "updateMany flt upd coll = map (\<lambda>(i, d). if flt i d then (i, upd d) else (i, d)) coll"

definition add_read_receipt :: "string \<Rightarrow> int \<Rightarrow> message \<Rightarrow> message" where
  "add_read_receipt userId now m =
     m\<lparr>readBy := addToSet \<lparr>rr_user = userId, readAt = now\<rparr> (readBy m)\<rparr>"

definition markMessagesRead_handler :: "env \<Rightarrow> socket \<Rightarrow> read_data \<Rightarrow> server_state \<Rightarrow> server_state" where
  "markMessagesRead_handler env socket d st =
     (if rd_chatId d = [] then st
      else (case rd_messageIds d of
              None \<Rightarrow> st
            | Some ids \<Rightarrow>
                emit (ToRoomExcept (chat_room (rd_chatId d)) (sock_id socket))
                     (EvMessagesRead (rd_chatId d) ids (sock_userId socket))
                     (st\<lparr>messages :=
                           updateMany (mark_read_filter (rd_chatId d) ids (sock_userId socket))
                                      (add_read_receipt (sock_userId socket) (date_now env))
                                      (messages st)\<rparr>)))"

subsection \<open>The \<open>joinChat\<close> and \<open>leaveChat\<close> listeners\<close>

definition joinChat_handler :: "socket \<Rightarrow> string \<Rightarrow> server_state \<Rightarrow> server_state" where
  "joinChat_handler socket chatId st =
     emit (ToRoomExcept (chat_room chatId) (sock_id socket))
          (EvUserJoinedChat (sock_userId socket) (sock_username socket))
          (join_room (sock_id socket) (chat_room chatId) st)"

definition leaveChat_handler :: "socket \<Rightarrow> string \<Rightarrow> server_state \<Rightarrow> server_state" where
  "leaveChat_handler socket chatId st =
     emit (ToRoomExcept (chat_room chatId) (sock_id socket))
          (EvUserLeftChat (sock_userId socket) (sock_username socket))
          (leave_room (sock_id socket) (chat_room chatId) st)"

subsection \<open>The event loop\<close>

datatype inbound =
    Connect socket
  | Disconnect socket
  | SendMessage socket send_data
  | MarkMessagesRead socket read_data
  | JoinChat socket string
  | LeaveChat socket string
  | Immediate

definition dispatch :: "env \<Rightarrow> inbound \<Rightarrow> server_state \<Rightarrow> server_state" where
  "dispatch env ev st =
     (case ev of
        Connect s \<Rightarrow> connection env s st
      | Disconnect s \<Rightarrow> disconnect env s st
      | SendMessage s d \<Rightarrow> sendMessage_handler env s d st
      | MarkMessagesRead s d \<Rightarrow> markMessagesRead_handler env s d st
      | JoinChat s c \<Rightarrow> joinChat_handler s c st
      | LeaveChat s c \<Rightarrow> leaveChat_handler s c st
      | Immediate \<Rightarrow> (case run_next_immediate env st of Inl e \<Rightarrow> st | Inr st' \<Rightarrow> st'))"

fun run :: "(env \<times> inbound) list \<Rightarrow> server_state \<Rightarrow> server_state" where
  "run [] st = st"
| "run ((env, ev) # evs) st = run evs (dispatch env ev st)"

text \<open>The events by which a socket stops being a member of a room.\<close>

fun leaves :: "string \<Rightarrow> string \<Rightarrow> inbound \<Rightarrow> bool" where
  "leaves sid r (LeaveChat s c) = (sock_id s = sid \<and> chat_room c = r)"
| "leaves sid r (Disconnect s) = (sock_id s = sid)"
| "leaves sid r ev = False"

section \<open>Message controller and routes (Controllers/messageController.js, Routes/messageRoutes.js)\<close>

text \<open>
  An Express request after \<open>protect\<close>: the path parameters, the fields of the JSON body
  that the handlers read, the authenticated user's id, and the parsed query of the
  message listing (\<open>page\<close>, \<open>limit\<close>, \<open>before\<close>).
\<close>

record request =
  params :: "string \<rightharpoonup> string"
  body_content :: jsval
  body_emoji :: string
  req_userId :: string
  query_page :: nat
  query_limit :: nat
  query_before :: "int option"

datatype payload =
    NoData
  | DataError string
  | DataModeration bool string bool
  | DataMessage string message
  | DataReactions "reaction list"
  | DataMessages "(string \<times> message) list" nat nat nat bool

record response =
  status :: nat
  success :: bool
  res_message :: string
  res_data :: payload

definition reply :: "nat \<Rightarrow> bool \<Rightarrow> string \<Rightarrow> payload \<Rightarrow> response" where
  "reply code ok msg d = \<lparr>status = code, success = ok, res_message = msg, res_data = d\<rparr>"

datatype middleware_result = Next | Respond response

text \<open>\<open>sexualContentMiddleware\<close>: a body without a non-blank string \<open>content\<close> is passed on
  unchecked; flagged content is answered with the blocked response and \<open>next\<close> is not
  called.\<close>

definition sexualContentMiddleware :: "env \<Rightarrow> request \<Rightarrow> middleware_result" where
  "sexualContentMiddleware env req =
     (case body_content req of
        JStr c \<Rightarrow>
          if c = [] \<or> trim c = [] then Next
          else if is_sexual (service_checkSexualContent (post_check env) (JStr c))
          then Respond (reply 400 False
                 ''Your message contains inappropriate content and has been blocked. Please keep conversations appropriate.''
                 (DataModeration True ''sexual_content'' True))
          else Next
      | _ \<Rightarrow> Next)"

text \<open>The emission loop of the controllers: one event to the personal room of every
  active participant, when the Socket.IO server is registered.\<close>

definition emit_to_participants :: "env \<Rightarrow> chat \<Rightarrow> (participant \<Rightarrow> bool) \<Rightarrow> event \<Rightarrow> server_state \<Rightarrow> server_state" where
  "emit_to_participants env ch sel ev st =
     (if io_attached env
      then fold (\<lambda>p. emit (ToRoom (user_room (p_user p))) ev)
                (filter (\<lambda>p. p_isActive p \<and> sel p) (participants ch)) st
      else st)"

text \<open>
  \<open>editMessage\<close> in the revision of the controller that reads \<open>req.params.id\<close> (the
  test application mounts it at \<open>/message/:id\<close>). Saving revalidates the modified \<open>content\<close> (a \<open>ValidationError\<close> when
  longer than 1000 characters), and a missing chat makes \<open>chat.participants\<close> throw after
  the save when the Socket.IO server is registered; the handler's \<open>catch\<close> answers every
  exception with status 500.
\<close>

definition editTimeLimit :: int where
  "editTimeLimit = 15 * 60 * 1000"

definition editMessage :: "env \<Rightarrow> request \<Rightarrow> server_state \<Rightarrow> response \<times> server_state" where
  "editMessage env req st =
     (if \<not> truthy (body_content req)
      then (reply 400 False ''Message content is required'' NoData, st)
      else (case body_content req of
              JStr c \<Rightarrow>
                if trim c = []
                then (reply 400 False ''Message content is required'' NoData, st)
                else (case params req ''id'' of
                        None \<Rightarrow> (reply 404 False ''Message not found'' NoData, st)
                      | Some i \<Rightarrow>
                          (case findById (messages st) i of
                             None \<Rightarrow> (reply 404 False ''Message not found'' NoData, st)
                           | Some m \<Rightarrow>
                               if isDeleted m
                               then (reply 400 False ''Cannot edit deleted message'' NoData, st)
                               else if sender m \<noteq> req_userId req
                               then (reply 403 False ''You can only edit your own messages'' NoData, st)
                               else if date_now env - createdAt m > editTimeLimit
                               then (reply 400 False ''Message edit time limit exceeded'' NoData, st)
                               else
                                 let m' = m\<lparr>content := trim c, isEdited := True,
                                            editedAt := Some (date_now env)\<rparr>
                                 in if length (content m') > 1000
                                    then (reply 500 False ''Failed to edit message'' (DataError ''ValidationError''), st)
                                    else
                                      let st1 = st\<lparr>messages := AList.update i m' (messages st)\<rparr>
                                      in (case findById (chats st1) (m_chat m') of
                                            None \<Rightarrow>
                                              if io_attached env
                                              then (reply 500 False ''Failed to edit message'' (DataError ''TypeError''), st1)
                                              else (reply 200 True ''Message updated successfully'' (DataMessage i m'), st1)
                                          | Some ch \<Rightarrow>
                                              (reply 200 True ''Message updated successfully'' (DataMessage i m'),
                                               emit_to_participants env ch (\<lambda>p. True) (EvMessageEdited i m') st1))))
            | _ \<Rightarrow> (reply 500 False ''Failed to edit message'' (DataError ''TypeError''), st)))"

text \<open>
  \<open>editMessage\<close> of Controllers/messageController.js, the revision that
  Routes/messageRoutes.js imports. It reads \<open>req.params.messageId\<close>, answers 404 for a
  deleted message, and calls \<open>io.to\<close> without testing \<open>io\<close>: with no Socket.IO server
  registered the first active participant makes the loop throw, after the save.
\<close>

definition controller_editMessage :: "env \<Rightarrow> request \<Rightarrow> server_state \<Rightarrow> response \<times> server_state" where
  "controller_editMessage env req st =
     (if \<not> truthy (body_content req)
      then (reply 400 False ''Content is required'' NoData, st)
      else (case body_content req of
              JStr c \<Rightarrow>
                if trim c = []
                then (reply 400 False ''Content is required'' NoData, st)
                else (case params req ''messageId'' of
                        None \<Rightarrow> (reply 404 False ''Message not found'' NoData, st)
                      | Some messageId \<Rightarrow>
                          (case findById (messages st) messageId of
                             None \<Rightarrow> (reply 404 False ''Message not found'' NoData, st)
                           | Some m \<Rightarrow>
                               if isDeleted m
                               then (reply 404 False ''Message not found'' NoData, st)
                               else if sender m \<noteq> req_userId req
                               then (reply 403 False ''You can only edit your own messages'' NoData, st)
                               else if date_now env - createdAt m > editTimeLimit
                               then (reply 400 False ''Message edit time limit exceeded'' NoData, st)
                               else
                                 let m' = m\<lparr>content := trim c, isEdited := True,
                                            editedAt := Some (date_now env)\<rparr>
                                 in if length (content m') > 1000
                                    then (reply 500 False ''Failed to edit message'' (DataError ''ValidationError''), st)
                                    else
                                      let st1 = st\<lparr>messages := AList.update messageId m' (messages st)\<rparr>
                                      in (case findById (chats st1) (m_chat m') of
                                            None \<Rightarrow>
                                              (reply 500 False ''Failed to edit message'' (DataError ''TypeError''), st1)
                                          | Some ch \<Rightarrow>
                                              if \<not> io_attached env \<and> list_ex p_isActive (participants ch)
                                              then (reply 500 False ''Failed to edit message'' (DataError ''TypeError''), st1)
                                              else (reply 200 True ''Message edited successfully'' (DataMessage messageId m'),
                                                    emit_to_participants env ch (\<lambda>p. True)
                                                      (EvMessageEdited messageId m') st1))))
            | _ \<Rightarrow> (reply 500 False ''Failed to edit message'' (DataError ''TypeError''), st)))"

text \<open>
  \<open>router.put('/:messageId', sexualContentMiddleware, editMessage)\<close> of
  Routes/messageRoutes.js: Express binds the path segment to the parameter
  \<open>messageId\<close>, and the handler, imported from Controllers/messageController.js, runs
  only when the middleware calls \<open>next\<close>.
\<close>

definition put_message_route :: "env \<Rightarrow> request \<Rightarrow> server_state \<Rightarrow> response \<times> server_state" where
  "put_message_route env req st =
     (case sexualContentMiddleware env req of
        Respond r \<Rightarrow> (r, st)
      | Next \<Rightarrow> controller_editMessage env req st)"

text \<open>\<open>getChatMessages\<close>. The listing is sorted by \<open>createdAt\<close> descending, skips
  \<open>(page - 1) * limit\<close> documents and returns at most \<open>limit\<close> (a limit of 0 is no limit;
  a negative skip is rejected by the store); the messages returned are then marked read
  for the caller.\<close>

definition list_query :: "string \<Rightarrow> int option \<Rightarrow> (string \<times> message) list \<Rightarrow> (string \<times> message) list" where
  "list_query chatId before ms =
     rev (sort_key (\<lambda>(i, m). createdAt m)
            (filter (\<lambda>(i, m). m_chat m = chatId \<and> \<not> isDeleted m
                              \<and> (case before of None \<Rightarrow> True | Some b \<Rightarrow> createdAt m < b)) ms))"

definition getChatMessages :: "env \<Rightarrow> request \<Rightarrow> server_state \<Rightarrow> response \<times> server_state" where
  "getChatMessages env req st =
     (case params req ''chatId'' of
        None \<Rightarrow> (reply 404 False ''Chat not found'' NoData, st)
      | Some chatId \<Rightarrow>
          (case findById (chats st) chatId of
             None \<Rightarrow> (reply 404 False ''Chat not found'' NoData, st)
           | Some ch \<Rightarrow>
               if \<not> c_isActive ch then (reply 404 False ''Chat not found'' NoData, st)
               else if \<not> isParticipant ch (req_userId req)
               then (reply 403 False ''Access denied. You are not a participant in this chat.'' NoData, st)
               else if query_page req = 0 \<and> query_limit req > 0
               then (reply 500 False ''Failed to retrieve messages'' (DataError ''MongoServerError''), st)
               else
                 let found = list_query chatId (query_before req) (messages st);
                     skipped = drop ((query_page req - 1) * query_limit req) found;
                     msgs = (if query_limit req = 0 then skipped else take (query_limit req) skipped);
                     unreadMessageIds =
                       map fst (filter (\<lambda>(i, m). \<not> list_ex (\<lambda>r. rr_user r = req_userId req) (readBy m)) msgs);
                     st1 = (if unreadMessageIds = [] then st
                            else emit_to_participants env ch (\<lambda>p. p_user p \<noteq> req_userId req)
                                   (EvMessagesRead chatId unreadMessageIds (req_userId req))
                                   (st\<lparr>messages := updateMany (\<lambda>i m. i \<in> set unreadMessageIds)
                                                       (add_read_receipt (req_userId req) (date_now env))
                                                       (messages st)\<rparr>));
                     totalMessages = length (filter (\<lambda>(i, m). m_chat m = chatId \<and> \<not> isDeleted m) (messages st1))
                 in (reply 200 True ''Messages retrieved successfully''
                       (DataMessages msgs (query_page req) (query_limit req) totalMessages
                          (length msgs = query_limit req)), st1)))"

text \<open>\<open>addReaction\<close>: \<open>findIndex\<close> gives the first reaction of the user with the emoji;
  when there is one, \<open>splice(index, 1)\<close> removes it, otherwise a new one is pushed.\<close>

fun findIndex :: "('a \<Rightarrow> bool) \<Rightarrow> 'a list \<Rightarrow> nat option" where
  "findIndex P [] = None"
| "findIndex P (x # xs) = (if P x then Some 0 else map_option Suc (findIndex P xs))"

definition toggle_reaction :: "string \<Rightarrow> string \<Rightarrow> int \<Rightarrow> reaction list \<Rightarrow> reaction list" where
  "toggle_reaction userId emoji now rs =
     (case findIndex (\<lambda>r. r_user r = userId \<and> r_emoji r = emoji) rs of
        Some existingReactionIndex \<Rightarrow> take existingReactionIndex rs @ drop (Suc existingReactionIndex) rs
      | None \<Rightarrow> rs @ [\<lparr>r_user = userId, r_emoji = emoji, r_createdAt = now\<rparr>])"

definition addReaction :: "env \<Rightarrow> request \<Rightarrow> server_state \<Rightarrow> response \<times> server_state" where
  "addReaction env req st =
     (if body_emoji req = [] then (reply 400 False ''Emoji is required'' NoData, st)
      else (case params req ''messageId'' of
              None \<Rightarrow> (reply 404 False ''Message not found'' NoData, st)
            | Some messageId \<Rightarrow>
                (case findById (messages st) messageId of
                   None \<Rightarrow> (reply 404 False ''Message not found'' NoData, st)
                 | Some m \<Rightarrow>
                     if isDeleted m then (reply 404 False ''Message not found'' NoData, st)
                     else (case findById (chats st) (m_chat m) of
                             None \<Rightarrow> (reply 500 False ''Failed to update reaction'' (DataError ''TypeError''), st)
                           | Some ch \<Rightarrow>
                               if \<not> isParticipant ch (req_userId req)
                               then (reply 403 False ''Access denied'' NoData, st)
                               else
                                 let m' = m\<lparr>reactions := toggle_reaction (req_userId req) (body_emoji req)
                                                            (date_now env) (reactions m)\<rparr>;
                                     st1 = st\<lparr>messages := AList.update messageId m' (messages st)\<rparr>
                                 in (reply 200 True ''Reaction updated successfully'' (DataReactions (reactions m')),
                                     emit_to_participants env ch (\<lambda>p. True)
                                       (EvMessageReactionUpdated messageId (reactions m')) st1)))))"

section \<open>Derived notions used in the statements\<close>

text \<open>How many read receipts of a message name a user.\<close>

definition reads_of :: "string \<Rightarrow> message \<Rightarrow> nat" where
  "reads_of u m = length (filter (\<lambda>r. rr_user r = u) (readBy m))"

text \<open>The (identity, emoji) pairs of a reaction list.\<close>

definition reaction_keys :: "reaction list \<Rightarrow> (string \<times> string) list" where
  "reaction_keys rs = map (\<lambda>r. (r_user r, r_emoji r)) rs"

section \<open>A sample deployment\<close>

text \<open>
  Two users share the group chat \<open>c1\<close>: alice is an active participant, bob's
  participation has been deactivated (he was removed) after he sent message \<open>m1\<close>.
  The guardian of alice is on file; bob has none.
\<close>

definition alice :: user where
  "alice = \<lparr>username = ''alice'', fullName = None, email = ''alice@example.org'',
            parentEmail = Some ''parent@example.org'', isOnline = False, lastSeen = 0\<rparr>"

definition bob :: user where
  "bob = \<lparr>username = ''bob'', fullName = Some ''Bob B'', email = ''bob@example.org'',
          parentEmail = None, isOnline = False, lastSeen = 0\<rparr>"

definition demo_chat :: chat where
  "demo_chat = \<lparr>chatType = ''group'',
                participants = [\<lparr>p_user = ''u1'', p_role = ''admin'', p_isActive = True\<rparr>,
                                \<lparr>p_user = ''u2'', p_role = ''member'', p_isActive = False\<rparr>],
                c_isActive = True, lastMessage = Some ''m1'', lastActivity = 0\<rparr>"

definition demo_message :: message where
  "demo_message = \<lparr>content = ''old'', messageType = ''text'', sender = ''u2'', m_chat = ''c1'',
                   replyTo = None, isEdited = False, editedAt = None, isDeleted = False,
                   readBy = [], reactions = [], createdAt = 0\<rparr>"

definition demo_state :: server_state where
  "demo_state = \<lparr>connectedUsers = Map.empty, userSockets = Map.empty, rooms = (\<lambda>r. {}),
                 users = [(''u1'', alice), (''u2'', bob)], chats = [(''c1'', demo_chat)],
                 messages = [(''m1'', demo_message)], outbox = [], immediates = [],
                 mails_sent = [], incident_log = []\<rparr>"

text \<open>An environment whose classifier answers every text with the given flag, at the
  given time, and whose mail transport is down.\<close>

definition demo_env :: "bool \<Rightarrow> int \<Rightarrow> env" where
  "demo_env flagged now =
     \<lparr>post_check = (\<lambda>t. HttpResponse (DataObj (JBool flagged))), date_now = now,
      new_id = ''m2'', mail_delivers = (\<lambda>a. False), io_attached = True\<rparr>"

definition alice_socket :: socket where
  "alice_socket = \<lparr>sock_id = ''s1'', sock_userId = ''u1'', sock_username = ''alice''\<rparr>"

definition alice_socket2 :: socket where
  "alice_socket2 = \<lparr>sock_id = ''s2'', sock_userId = ''u1'', sock_username = ''alice''\<rparr>"

definition bob_socket :: socket where
  "bob_socket = \<lparr>sock_id = ''s3'', sock_userId = ''u2'', sock_username = ''bob''\<rparr>"

definition demo_send :: "string \<Rightarrow> send_data" where
  "demo_send txt = \<lparr>sd_chatId = ''c1'', sd_content = JStr txt, sd_messageType = None, sd_replyTo = None\<rparr>"

definition demo_request :: "string \<Rightarrow> string \<Rightarrow> string \<Rightarrow> string \<Rightarrow> request" where
  "demo_request pname pvalue uid txt =
     \<lparr>params = [pname \<mapsto> pvalue], body_content = JStr txt, body_emoji = ''+1'',
      req_userId = uid, query_page = 1, query_limit = 50, query_before = None\<rparr>"

section \<open>Auxiliary lemmas\<close>

lemma trim_nonempty_imp: "trim s \<noteq> [] \<Longrightarrow> s \<noteq> []"
  by (auto simp: trim_def)

lemma emit_fields [simp]:
  "connectedUsers (emit t ev st) = connectedUsers st"
  "userSockets (emit t ev st) = userSockets st"
  "rooms (emit t ev st) = rooms st"
  "users (emit t ev st) = users st"
  "chats (emit t ev st) = chats st"
  "messages (emit t ev st) = messages st"
  "outbox (emit t ev st) = outbox st @ [(t, ev)]"
  "immediates (emit t ev st) = immediates st"
  "mails_sent (emit t ev st) = mails_sent st"
  "incident_log (emit t ev st) = incident_log st"
  by (simp_all add: emit_def)

lemma fold_emit:
  "fold (\<lambda>x. emit (f x) (g x)) xs st = st\<lparr>outbox := outbox st @ map (\<lambda>x. (f x, g x)) xs\<rparr>"
  by (induction xs arbitrary: st) (simp_all add: emit_def)

lemma join_room_fields [simp]:
  "connectedUsers (join_room s r st) = connectedUsers st"
  "userSockets (join_room s r st) = userSockets st"
  "users (join_room s r st) = users st"
  "chats (join_room s r st) = chats st"
  "messages (join_room s r st) = messages st"
  "outbox (join_room s r st) = outbox st"
  "immediates (join_room s r st) = immediates st"
  by (simp_all add: join_room_def)

lemma join_room_mono: "x \<in> rooms st r \<Longrightarrow> x \<in> rooms (join_room s r' st) r"
  by (auto simp: join_room_def)

lemma join_room_self: "s \<in> rooms (join_room s r st) r"
  by (simp add: join_room_def)

lemma fold_join_room_fields:
  "connectedUsers (fold (\<lambda>(i, c). join_room s (f i)) xs st) = connectedUsers st
   \<and> userSockets (fold (\<lambda>(i, c). join_room s (f i)) xs st) = userSockets st
   \<and> users (fold (\<lambda>(i, c). join_room s (f i)) xs st) = users st
   \<and> chats (fold (\<lambda>(i, c). join_room s (f i)) xs st) = chats st
   \<and> messages (fold (\<lambda>(i, c). join_room s (f i)) xs st) = messages st
   \<and> outbox (fold (\<lambda>(i, c). join_room s (f i)) xs st) = outbox st"
  by (induction xs arbitrary: st) (auto simp: case_prod_beta)

lemma fold_join_room_mono:
  "x \<in> rooms st r \<Longrightarrow> x \<in> rooms (fold (\<lambda>(i, c). join_room s (f i)) xs st) r"
  by (induction xs arbitrary: st) (auto simp: case_prod_beta join_room_mono)

lemma updateUserOnlineStatus_fields [simp]:
  "connectedUsers (updateUserOnlineStatus env u b st) = connectedUsers st"
  "userSockets (updateUserOnlineStatus env u b st) = userSockets st"
  "rooms (updateUserOnlineStatus env u b st) = rooms st"
  "chats (updateUserOnlineStatus env u b st) = chats st"
  "messages (updateUserOnlineStatus env u b st) = messages st"
  by (simp_all add: updateUserOnlineStatus_def Let_def fold_emit)

lemma findById_map_update:
  "findById (map (\<lambda>(i, u). if i = k then (i, f u) else (i, u)) us) j
   = (if j = k then map_option f (findById us j) else findById us j)"
  by (induction us) (auto simp: findById_def)

lemma updateUserOnlineStatus_users:
  "findById (users (updateUserOnlineStatus env u b st)) u
   = map_option (\<lambda>usr. usr\<lparr>isOnline := b, lastSeen := date_now env\<rparr>) (findById (users st) u)"
  by (simp add: updateUserOnlineStatus_def Let_def fold_emit findById_map_update)

lemma findById_update [simp]:
  "findById (AList.update k v al) j = (if j = k then Some v else findById al j)"
  by (simp add: findById_def update_conv')

lemma emit_to_participants_fields [simp]:
  "connectedUsers (emit_to_participants env ch sel ev st) = connectedUsers st"
  "userSockets (emit_to_participants env ch sel ev st) = userSockets st"
  "rooms (emit_to_participants env ch sel ev st) = rooms st"
  "users (emit_to_participants env ch sel ev st) = users st"
  "chats (emit_to_participants env ch sel ev st) = chats st"
  "messages (emit_to_participants env ch sel ev st) = messages st"
  by (simp_all add: emit_to_participants_def fold_emit)

subsection \<open>The blocked branch of the send listener\<close>

lemma monitor_blocked:
  assumes "monitorTextContent post c uid chatId = Inr (v, q)" and "blocked v"
  shows "trim c \<noteq> []" and "q = [ParentNotification c uid chatId ''text'']"
    and "mon_reason v = Some ''sexual_content''"
  using assms
  by (auto simp: monitorTextContent_def quickContentCheck_def checkSexualContent_def
      service_checkSexualContent_def sendParentNotificationAsync_def Let_def split: if_splits)

lemma sendMessage_blocked_state:
  assumes "sd_chatId d \<noteq> []" and "sd_content d = JStr c"
    and "sd_messageType d = None \<or> sd_messageType d = Some ''text''"
    and "monitorTextContent (post_check env) c (sock_userId socket) (sd_chatId d) = Inr (v, q)"
    and "blocked v"
  shows "sendMessage_handler env socket d st
         = st\<lparr>outbox := outbox st @ [(ToSocket (sock_id socket),
                                        EvMessageBlocked (mon_reason v) (mon_message v))],
              immediates := immediates st @ q\<rparr>"
proof -
  have t: "trim c \<noteq> []" using assms(4,5) by (rule monitor_blocked)
  then have c: "c \<noteq> []" by (rule trim_nonempty_imp)
  from assms(3) have m: "(case sd_messageType d of None \<Rightarrow> ''text'' | Some t \<Rightarrow> t) = ''text''"
    by auto
  show ?thesis
    using assms(1,2,4,5) t c m
    by (simp add: sendMessage_handler_def Let_def emit_def)
qed

lemma approved_monitor:
  "\<not> is_sexual (checkSexualContent post (JStr c)) \<Longrightarrow>
     monitorTextContent post c u chatId
       = Inr (\<lparr>blocked = False, mon_reason = None, mon_message = None, approved = Some True\<rparr>, [])"
  by (simp add: monitorTextContent_def quickContentCheck_def Let_def)

subsection \<open>The deferred task\<close>

lemma run_parent_notification_frame:
  "\<exists>st'. run_parent_notification env t st = Inr st'
     \<and> outbox st' = outbox st \<and> messages st' = messages st \<and> chats st' = chats st
     \<and> rooms st' = rooms st \<and> users st' = users st \<and> immediates st' = immediates st
     \<and> connectedUsers st' = connectedUsers st \<and> userSockets st' = userSockets st"
  by (cases t) (auto simp: run_parent_notification_def Let_def split: option.splits sum.splits)

subsection \<open>Room membership along a run\<close>

lemma persist_and_broadcast_rooms [simp]:
  "rooms (persist_and_broadcast env socket chatId c mtype rep st) = rooms st"
  by (simp add: persist_and_broadcast_def Let_def split: option.splits)

lemma sendMessage_handler_rooms [simp]:
  "rooms (sendMessage_handler env socket d st) = rooms st"
  by (simp add: sendMessage_handler_def Let_def monitorTextContent_def split: jsval.splits)

lemma markMessagesRead_handler_rooms [simp]:
  "rooms (markMessagesRead_handler env socket d st) = rooms st"
  by (simp add: markMessagesRead_handler_def split: option.splits)

lemma dispatch_keeps_member:
  assumes "x \<in> rooms st r" and "\<not> leaves x r ev"
  shows "x \<in> rooms (dispatch env ev st) r"
proof (cases ev)
  case (Connect s)
  with assms show ?thesis
    by (simp add: dispatch_def connection_def Let_def joinUserChats_def fold_join_room_mono join_room_mono)
next
  case (Disconnect s)
  with assms show ?thesis
    by (simp add: dispatch_def disconnect_def handleDisconnection_def)
next
  case (SendMessage s d)
  with assms show ?thesis by (simp add: dispatch_def)
next
  case (MarkMessagesRead s d)
  with assms show ?thesis by (simp add: dispatch_def)
next
  case (JoinChat s c)
  with assms show ?thesis by (simp add: dispatch_def joinChat_handler_def join_room_mono)
next
  case (LeaveChat s c)
  with assms show ?thesis by (auto simp: dispatch_def leaveChat_handler_def leave_room_def)
next
  case Immediate
  show ?thesis
  proof (cases "immediates st")
    case Nil
    with assms Immediate show ?thesis by (simp add: dispatch_def run_next_immediate_def)
  next
    case (Cons t ts)
    obtain st' where "run_parent_notification env t (st\<lparr>immediates := ts\<rparr>) = Inr st'"
      and "rooms st' = rooms (st\<lparr>immediates := ts\<rparr>)"
      using run_parent_notification_frame [of env t "st\<lparr>immediates := ts\<rparr>"] by blast
    with assms Immediate Cons show ?thesis by (simp add: dispatch_def run_next_immediate_def)
  qed
qed

lemma run_keeps_member:
  "x \<in> rooms st r \<Longrightarrow> list_all (\<lambda>(env, ev). \<not> leaves x r ev) evs \<Longrightarrow> x \<in> rooms (run evs st) r"
  by (induction evs arbitrary: st) (auto simp: dispatch_keeps_member)

subsection \<open>Bulk updates and read receipts\<close>

lemma updateMany_again:
  assumes "\<And>i d. flt i d \<Longrightarrow> \<not> flt i (upd1 d)"
  shows "updateMany flt upd2 (updateMany flt upd1 coll) = updateMany flt upd1 coll"
  using assms by (induction coll) (auto simp: updateMany_def)

lemma updateMany_list_all:
  assumes "\<And>i d. flt i d \<Longrightarrow> P d \<Longrightarrow> P (upd d)"
  shows "list_all (\<lambda>(i, d). P d) coll \<Longrightarrow> list_all (\<lambda>(i, d). P d) (updateMany flt upd coll)"
  using assms by (induction coll) (auto simp: updateMany_def split: if_splits)

lemma mark_read_filter_after:
  "mark_read_filter c ids u i m \<Longrightarrow> \<not> mark_read_filter c ids u i (add_read_receipt u t m)"
  by (auto simp: mark_read_filter_def add_read_receipt_def addToSet_def list_ex_iff)

lemma reads_of_add:
  "mark_read_filter c ids v i m \<Longrightarrow>
     reads_of u (add_read_receipt v t m) = (if u = v then 1 else reads_of u m)"
  by (auto simp: mark_read_filter_def add_read_receipt_def addToSet_def list_ex_iff reads_of_def
      filter_empty_conv)

subsection \<open>Reactions\<close>

lemma findIndex_None: "findIndex P xs = None \<longleftrightarrow> (\<forall>x\<in>set xs. \<not> P x)"
  by (induction xs) auto

lemma findIndex_append_new:
  "\<forall>x\<in>set xs. \<not> P x \<Longrightarrow> P y \<Longrightarrow> findIndex P (xs @ [y]) = Some (length xs)"
  by (induction xs) auto

lemma toggle_add:
  assumes "(u, e) \<notin> set (reaction_keys rs)"
  shows "toggle_reaction u e t rs = rs @ [\<lparr>r_user = u, r_emoji = e, r_createdAt = t\<rparr>]"
proof -
  from assms have "\<forall>r\<in>set rs. \<not> (r_user r = u \<and> r_emoji r = e)"
    by (auto simp: reaction_keys_def)
  then have "findIndex (\<lambda>r. r_user r = u \<and> r_emoji r = e) rs = None"
    by (simp add: findIndex_None)
  then show ?thesis by (simp add: toggle_reaction_def)
qed

lemma toggle_twice:
  assumes "(u, e) \<notin> set (reaction_keys rs)"
  shows "toggle_reaction u e t2 (toggle_reaction u e t1 rs) = rs"
proof -
  from assms have n: "\<forall>r\<in>set rs. \<not> (r_user r = u \<and> r_emoji r = e)"
    by (auto simp: reaction_keys_def)
  have "findIndex (\<lambda>r. r_user r = u \<and> r_emoji r = e)
          (rs @ [\<lparr>r_user = u, r_emoji = e, r_createdAt = t1\<rparr>]) = Some (length rs)"
    by (rule findIndex_append_new [OF n]) simp
  then show ?thesis
    using assms by (simp add: toggle_add) (simp add: toggle_reaction_def)
qed

lemma distinct_remove_nth: "distinct xs \<Longrightarrow> distinct (take k xs @ drop (Suc k) xs)"
proof (induction xs arbitrary: k)
  case Nil
  then show ?case by simp
next
  case (Cons x xs)
  then show ?case
    by (cases k) (auto dest: in_set_takeD in_set_dropD)
qed

lemma toggle_distinct:
  assumes d: "distinct (reaction_keys rs)"
  shows "distinct (reaction_keys (toggle_reaction u e t rs))"
proof (cases "findIndex (\<lambda>r. r_user r = u \<and> r_emoji r = e) rs")
  case None
  then have "(u, e) \<notin> set (reaction_keys rs)"
    by (auto simp: findIndex_None reaction_keys_def)
  with d None show ?thesis
    by (simp add: toggle_reaction_def reaction_keys_def)
next
  case (Some k)
  have "reaction_keys (take k rs @ drop (Suc k) rs)
        = take k (reaction_keys rs) @ drop (Suc k) (reaction_keys rs)"
    by (simp add: reaction_keys_def take_map drop_map)
  with distinct_remove_nth [OF d, of k] Some show ?thesis
    by (simp add: toggle_reaction_def del: distinct_append)
qed

lemma update_list_all:
  "list_all (\<lambda>(i, d). P d) al \<Longrightarrow> P v \<Longrightarrow> list_all (\<lambda>(i, d). P d) (AList.update k v al)"
  by (induction al) auto

lemma findById_list_all:
  "list_all (\<lambda>(i, d). P d) al \<Longrightarrow> findById al k = Some v \<Longrightarrow> P v"
  by (auto simp: findById_def list_all_iff dest!: map_of_SomeD)

lemma addReaction_keeps_distinct:
  assumes "list_all (\<lambda>(i, m). distinct (reaction_keys (reactions m))) (messages st)"
  shows "list_all (\<lambda>(i, m). distinct (reaction_keys (reactions m))) (messages (snd (addReaction env req st)))"
proof -
  have "\<And>i m. findById (messages st) i = Some m \<Longrightarrow> distinct (reaction_keys (reactions m))"
    using assms by (rule findById_list_all [where P = "\<lambda>m. distinct (reaction_keys (reactions m))"])
  with assms show ?thesis
    by (auto simp: addReaction_def Let_def toggle_distinct split: option.splits
        intro!: update_list_all [where P = "\<lambda>m. distinct (reaction_keys (reactions m))"])
qed

subsection \<open>Edits change the store only on the accepted path\<close>

lemma editMessage_changes_only:
  "messages (snd (editMessage env req st)) \<noteq> messages st \<Longrightarrow>
     \<exists>i m c. params req ''id'' = Some i \<and> findById (messages st) i = Some m
        \<and> body_content req = JStr c
        \<and> sender m = req_userId req \<and> \<not> isDeleted m \<and> date_now env - createdAt m \<le> 15 * 60 * 1000"
  by (auto simp: editMessage_def editTimeLimit_def Let_def split: option.splits jsval.splits if_splits)

lemma controller_editMessage_changes_only:
  "messages (snd (controller_editMessage env req st)) \<noteq> messages st \<Longrightarrow>
     \<exists>i m c. params req ''messageId'' = Some i \<and> findById (messages st) i = Some m
        \<and> body_content req = JStr c \<and> trim c \<noteq> []
        \<and> sender m = req_userId req \<and> \<not> isDeleted m \<and> date_now env - createdAt m \<le> 15 * 60 * 1000"
  by (auto simp: controller_editMessage_def editTimeLimit_def Let_def
      split: option.splits jsval.splits if_splits)

section \<open>C1: a blocked text message is neither stored nor fanned out\<close>

text \<open>
  C1. For a send-message event with text content on which the moderation check is run
  (the payload names a chat and the content is a non-blank string) and returns a blocked
  verdict, the listener emits exactly one event, \<open>messageBlocked\<close>, to the sending socket,
  and leaves the message store, the chats (so their last-message and last-activity
  fields) and the rooms as they were: no \<open>newMessage\<close> is emitted to anyone.
\<close>

theorem sendMessage_blocked_halts:
  assumes "sd_chatId d \<noteq> []" and "sd_content d = JStr c"
    and "sd_messageType d = None \<or> sd_messageType d = Some ''text''"
    and "monitorTextContent (post_check env) c (sock_userId socket) (sd_chatId d) = Inr (v, q)"
    and "blocked v"
  shows "outbox (sendMessage_handler env socket d st)
           = outbox st @ [(ToSocket (sock_id socket), EvMessageBlocked (mon_reason v) (mon_message v))]
       \<and> recipients (rooms (sendMessage_handler env socket d st)) (ToSocket (sock_id socket))
           = {sock_id socket}
       \<and> messages (sendMessage_handler env socket d st) = messages st
       \<and> chats (sendMessage_handler env socket d st) = chats st"
  using sendMessage_blocked_state [OF assms, of st] by simp

theorem sendMessage_blocked_halts_witness:
  "isParticipant demo_chat (sock_userId alice_socket)
   \<and> outbox (sendMessage_handler (demo_env True 1000) alice_socket (demo_send ''bad text'') demo_state)
       = [(ToSocket ''s1'',
           EvMessageBlocked (Some ''sexual_content'')
             (Some ''Your message contains inappropriate content and has been blocked. Please keep conversations appropriate.''))]
   \<and> messages (sendMessage_handler (demo_env True 1000) alice_socket (demo_send ''bad text'') demo_state)
       = [(''m1'', demo_message)]
   \<and> chats (sendMessage_handler (demo_env True 1000) alice_socket (demo_send ''bad text'') demo_state)
       = [(''c1'', demo_chat)]"
  using sendMessage_blocked_halts
    [of "demo_send ''bad text''" "''bad text''" "demo_env True 1000" alice_socket
        "\<lparr>blocked = True, mon_reason = Some ''sexual_content'',
          mon_message = Some ''Your message contains inappropriate content and has been blocked. Please keep conversations appropriate.'',
          approved = None\<rparr>"
        "[ParentNotification ''bad text'' ''u1'' ''c1'' ''text'']" demo_state]
  by (simp add: demo_send_def demo_env_def alice_socket_def demo_state_def demo_chat_def
      isParticipant_def monitorTextContent_def quickContentCheck_def checkSexualContent_def
      service_checkSexualContent_def sendParentNotificationAsync_def trim_def is_ws_def)

section \<open>C2: fail-open verdicts of the moderation gateway\<close>

text \<open>
  C2 (as amended). Whenever the classifier request fails, the verdict is approved and is
  told apart from a normal approval by its message and its error field. The
  distinguished reason \<open>service_unavailable\<close> is recorded for the error codes
  ECONNREFUSED and ETIMEDOUT; a failure with any other code, the HTTP client's own
  timeout code ECONNABORTED left aside, is handled by the branch for other errors and
  records the error's own message.
\<close>

theorem checkSexualContent_fail_open:
  assumes "trim s \<noteq> []" and "post (trim s) = HttpError e"
  shows "\<not> is_sexual (checkSexualContent post (JStr s))
       \<and> mr_message (checkSexualContent post (JStr s)) \<noteq> ''Content approved''
       \<and> mr_error (checkSexualContent post (JStr s)) \<noteq> JUndefined
       \<and> (err_code e = Some ''ECONNREFUSED'' \<or> err_code e = Some ''ETIMEDOUT'' \<longrightarrow>
            mr_error (checkSexualContent post (JStr s)) = JStr ''service_unavailable'')
       \<and> (err_code e \<noteq> Some ''ECONNREFUSED'' \<and> err_code e \<noteq> Some ''ETIMEDOUT''
            \<and> err_code e \<noteq> Some ''ECONNABORTED'' \<longrightarrow>
            mr_error (checkSexualContent post (JStr s)) = JStr (err_message e))"
  using assms trim_nonempty_imp [of s]
  by (simp add: checkSexualContent_def service_checkSexualContent_def moderation_catch_def)

theorem checkSexualContent_fail_open_witness:
  "\<not> is_sexual (checkSexualContent
        (\<lambda>t. HttpError \<lparr>err_code = Some ''ECONNREFUSED'', err_message = ''connect ECONNREFUSED''\<rparr>)
        (JStr ''hello''))
   \<and> mr_error (checkSexualContent
        (\<lambda>t. HttpError \<lparr>err_code = Some ''ECONNREFUSED'', err_message = ''connect ECONNREFUSED''\<rparr>)
        (JStr ''hello'')) = JStr ''service_unavailable''
   \<and> \<not> is_sexual (checkSexualContent
        (\<lambda>t. HttpError \<lparr>err_code = Some ''ECONNRESET'', err_message = ''socket hang up''\<rparr>)
        (JStr ''hello''))
   \<and> mr_error (checkSexualContent
        (\<lambda>t. HttpError \<lparr>err_code = Some ''ECONNRESET'', err_message = ''socket hang up''\<rparr>)
        (JStr ''hello'')) = JStr ''socket hang up''"
  using checkSexualContent_fail_open
      [of "''hello''"
          "\<lambda>t. HttpError \<lparr>err_code = Some ''ECONNREFUSED'', err_message = ''connect ECONNREFUSED''\<rparr>"
          "\<lparr>err_code = Some ''ECONNREFUSED'', err_message = ''connect ECONNREFUSED''\<rparr>"]
    checkSexualContent_fail_open
      [of "''hello''"
          "\<lambda>t. HttpError \<lparr>err_code = Some ''ECONNRESET'', err_message = ''socket hang up''\<rparr>"
          "\<lparr>err_code = Some ''ECONNRESET'', err_message = ''socket hang up''\<rparr>"]
  by (simp add: trim_def is_ws_def)

text \<open>
  A connection reset by the classifier is a transport error that the branch for other
  errors handles: the verdict is approved, and the recorded reason is the error's
  message, not \<open>service_unavailable\<close>.
\<close>

theorem checkSexualContent_reset_counterexample:
  "\<not> is_sexual (checkSexualContent
        (\<lambda>t. HttpError \<lparr>err_code = Some ''ECONNRESET'', err_message = ''socket hang up''\<rparr>)
        (JStr ''hello''))
   \<and> mr_error (checkSexualContent
        (\<lambda>t. HttpError \<lparr>err_code = Some ''ECONNRESET'', err_message = ''socket hang up''\<rparr>)
        (JStr ''hello'')) \<noteq> JStr ''service_unavailable''"
  by (simp add: checkSexualContent_def service_checkSexualContent_def moderation_catch_def
      trim_def is_ws_def)

section \<open>C3: operations of an identity without an active membership\<close>

text \<open>
  The socket \<open>sendMessage\<close> listener and \<open>getChatMessages\<close> consult the stored
  membership at the time of the operation, whatever rooms the socket joined earlier:
  for an identity that is no active participant of the chat, the send is answered to
  the sender alone (an error, or the blocked notice) and the listing with 403 or 404,
  and the stored messages and chats stay as they were.
\<close>

lemma send_and_listing_check_membership:
  assumes "findById (chats st) chatId = Some ch" and "\<not> isParticipant ch uid"
  shows "(sock_userId socket = uid \<and> sd_chatId d = chatId \<longrightarrow>
            messages (sendMessage_handler env socket d st) = messages st
          \<and> chats (sendMessage_handler env socket d st) = chats st
          \<and> (\<exists>ev. outbox (sendMessage_handler env socket d st) = outbox st @ [(ToSocket (sock_id socket), ev)]
                \<and> ((\<exists>msg. ev = EvError msg) \<or> (\<exists>r m. ev = EvMessageBlocked r m))))
       \<and> (req_userId req = uid \<and> params req ''chatId'' = Some chatId \<longrightarrow>
            snd (getChatMessages env req st) = st
          \<and> \<not> success (fst (getChatMessages env req st))
          \<and> (status (fst (getChatMessages env req st)) = 403 \<or> status (fst (getChatMessages env req st)) = 404))"
proof -
  have send: "sock_userId socket = uid \<Longrightarrow> sd_chatId d = chatId \<Longrightarrow>
            messages (sendMessage_handler env socket d st) = messages st
          \<and> chats (sendMessage_handler env socket d st) = chats st
          \<and> (\<exists>ev. outbox (sendMessage_handler env socket d st) = outbox st @ [(ToSocket (sock_id socket), ev)]
                \<and> ((\<exists>msg. ev = EvError msg) \<or> (\<exists>r m. ev = EvMessageBlocked r m)))"
    using assms
    by (simp add: sendMessage_handler_def persist_and_broadcast_def Let_def monitorTextContent_def
        split: jsval.splits)
  have read: "req_userId req = uid \<Longrightarrow> params req ''chatId'' = Some chatId \<Longrightarrow>
            snd (getChatMessages env req st) = st
          \<and> \<not> success (fst (getChatMessages env req st))
          \<and> (status (fst (getChatMessages env req st)) = 403 \<or> status (fst (getChatMessages env req st)) = 404)"
    using assms by (simp add: getChatMessages_def reply_def)
  from send read show ?thesis by blast
qed

text \<open>
  C3. The claim asks that send, edit and read by an identity without an active
  membership be rejected without effect. In the sample deployment bob's participation
  in chat \<open>c1\<close> is inactive, and the code accepts three of his operations: his edit of his
  own message one minute after sending it is answered 200 and stored, through the route
  and in the other revision of the handler alike (neither consults the chat's
  participants); his \<open>markMessagesRead\<close> for the chat adds his read receipt to the message
  and is announced to the room; and his flagged send, although not stored, queues the
  guardian notification before the access check is reached.
\<close>

theorem removed_participant_operations_accepted:
  "findById (chats demo_state) (m_chat demo_message) = Some demo_chat
   \<and> \<not> isParticipant demo_chat (sock_userId bob_socket)
   \<and> status (fst (put_message_route (demo_env False 60000)
                     (demo_request ''messageId'' ''m1'' ''u2'' ''new'') demo_state)) = 200
   \<and> findById (messages (snd (put_message_route (demo_env False 60000)
                                 (demo_request ''messageId'' ''m1'' ''u2'' ''new'') demo_state))) ''m1''
       = Some (demo_message\<lparr>content := ''new'', isEdited := True, editedAt := Some 60000\<rparr>)
   \<and> status (fst (editMessage (demo_env False 60000) (demo_request ''id'' ''m1'' ''u2'' ''new'') demo_state)) = 200
   \<and> findById (messages (snd (editMessage (demo_env False 60000)
                                 (demo_request ''id'' ''m1'' ''u2'' ''new'') demo_state))) ''m1''
       = Some (demo_message\<lparr>content := ''new'', isEdited := True, editedAt := Some 60000\<rparr>)
   \<and> messages (markMessagesRead_handler (demo_env False 70000) bob_socket
                  \<lparr>rd_chatId = ''c1'', rd_messageIds = Some [''m1'']\<rparr> demo_state)
       = [(''m1'', demo_message\<lparr>readBy := [\<lparr>rr_user = ''u2'', readAt = 70000\<rparr>]\<rparr>)]
   \<and> outbox (markMessagesRead_handler (demo_env False 70000) bob_socket
                  \<lparr>rd_chatId = ''c1'', rd_messageIds = Some [''m1'']\<rparr> demo_state)
       = [(ToRoomExcept (chat_room ''c1'') ''s3'', EvMessagesRead ''c1'' [''m1''] ''u2'')]
   \<and> immediates (sendMessage_handler (demo_env True 80000) bob_socket (demo_send ''bad text'') demo_state)
       = [ParentNotification ''bad text'' ''u2'' ''c1'' ''text'']"
  by (simp add: put_message_route_def sexualContentMiddleware_def service_checkSexualContent_def
      controller_editMessage_def editMessage_def editTimeLimit_def demo_state_def demo_chat_def
      demo_message_def demo_env_def demo_request_def demo_send_def bob_socket_def
      isParticipant_def findById_def reply_def trim_def is_ws_def emit_to_participants_def
      emit_def Let_def markMessagesRead_handler_def updateMany_def mark_read_filter_def
      add_read_receipt_def addToSet_def sendMessage_handler_def monitorTextContent_def
      quickContentCheck_def checkSexualContent_def sendParentNotificationAsync_def)

section \<open>C4: joining a room channel needs no membership\<close>

text \<open>
  C4. The \<open>joinChat\<close> listener puts the socket into the room of whatever chat id it is
  given: no condition on the state (participants, existence of the chat) is needed. The
  socket stays in the room through every later event that is not its own \<open>leaveChat\<close>
  for that room or its disconnect, so it is among the recipients of every emission to
  the room; in particular, when a later \<open>sendMessage\<close> for that chat is accepted, the
  \<open>newMessage\<close> emitted to the room reaches it.
\<close>

theorem joinChat_unguarded_fanout:
  assumes quiet: "list_all (\<lambda>(e, ev). \<not> leaves (sock_id socket) (chat_room chatId) ev) evs"
    and st1: "st1 = run evs (joinChat_handler socket chatId st)"
  shows "sock_id socket \<in> rooms (joinChat_handler socket chatId st) (chat_room chatId)
       \<and> sock_id socket \<in> rooms st1 (chat_room chatId)
       \<and> sock_id socket \<in> recipients (rooms (sendMessage_handler env sndr d st1)) (ToRoom (chat_room chatId))
       \<and> (sd_chatId d = chatId \<and> chatId \<noteq> [] \<and> sd_content d = JStr c \<and> trim c \<noteq> []
            \<and> length (trim c) \<le> 1000 \<and> sd_messageType d = None
            \<and> \<not> is_sexual (checkSexualContent (post_check env) (JStr c))
            \<and> findById (chats st1) chatId = Some ch \<and> c_isActive ch
            \<and> isParticipant ch (sock_userId sndr)
            \<and> findById (users st1) (sock_userId sndr) = Some usr \<longrightarrow>
          (\<exists>m. outbox (sendMessage_handler env sndr d st1)
                 = outbox st1 @ [(ToRoom (chat_room chatId), EvNewMessage (new_id env) m),
                                 (ToSocket (sock_id sndr), EvMessageSent (new_id env))]
              \<and> content m = trim c \<and> sender m = sock_userId sndr))"
proof -
  have j: "sock_id socket \<in> rooms (joinChat_handler socket chatId st) (chat_room chatId)"
    by (simp add: joinChat_handler_def join_room_self)
  from run_keeps_member [OF j quiet] st1
  have m: "sock_id socket \<in> rooms st1 (chat_room chatId)" by simp
  have s: "sd_chatId d = chatId \<and> chatId \<noteq> [] \<and> sd_content d = JStr c \<and> trim c \<noteq> []
            \<and> length (trim c) \<le> 1000 \<and> sd_messageType d = None
            \<and> \<not> is_sexual (checkSexualContent (post_check env) (JStr c))
            \<and> findById (chats st1) chatId = Some ch \<and> c_isActive ch
            \<and> isParticipant ch (sock_userId sndr)
            \<and> findById (users st1) (sock_userId sndr) = Some usr \<longrightarrow>
          (\<exists>m. outbox (sendMessage_handler env sndr d st1)
                 = outbox st1 @ [(ToRoom (chat_room chatId), EvNewMessage (new_id env) m),
                                 (ToSocket (sock_id sndr), EvMessageSent (new_id env))]
              \<and> content m = trim c \<and> sender m = sock_userId sndr)"
  proof
    assume a: "sd_chatId d = chatId \<and> chatId \<noteq> [] \<and> sd_content d = JStr c \<and> trim c \<noteq> []
            \<and> length (trim c) \<le> 1000 \<and> sd_messageType d = None
            \<and> \<not> is_sexual (checkSexualContent (post_check env) (JStr c))
            \<and> findById (chats st1) chatId = Some ch \<and> c_isActive ch
            \<and> isParticipant ch (sock_userId sndr)
            \<and> findById (users st1) (sock_userId sndr) = Some usr"
    then have c: "c \<noteq> []" by (auto dest: trim_nonempty_imp)
    from a have ok: "\<not> is_sexual (checkSexualContent (post_check env) (JStr c))" by simp
    show "\<exists>m. outbox (sendMessage_handler env sndr d st1)
                 = outbox st1 @ [(ToRoom (chat_room chatId), EvNewMessage (new_id env) m),
                                 (ToSocket (sock_id sndr), EvMessageSent (new_id env))]
              \<and> content m = trim c \<and> sender m = sock_userId sndr"
      using a c approved_monitor [OF ok]
      by (simp add: sendMessage_handler_def persist_and_broadcast_def Let_def validate_message_def
          findById_def)
  qed
  from j m s show ?thesis by simp
qed

theorem joinChat_unguarded_fanout_witness:
  "\<not> isParticipant demo_chat (sock_userId bob_socket)
   \<and> findById (chats demo_state) ''nowhere'' = None
   \<and> ''s3'' \<in> rooms (joinChat_handler bob_socket ''nowhere'' demo_state) (chat_room ''nowhere'')
   \<and> ''s3'' \<in> recipients
        (rooms (sendMessage_handler (demo_env False 1000) alice_socket (demo_send ''hi'')
                 (run [(demo_env False 500, JoinChat bob_socket ''nowhere'')]
                      (joinChat_handler bob_socket ''c1'' demo_state))))
        (ToRoom (chat_room ''c1''))
   \<and> outbox (sendMessage_handler (demo_env False 1000) alice_socket (demo_send ''hi'')
               (run [(demo_env False 500, JoinChat bob_socket ''nowhere'')]
                    (joinChat_handler bob_socket ''c1'' demo_state)))
       = [(ToRoomExcept (chat_room ''c1'') ''s3'', EvUserJoinedChat ''u2'' ''bob''),
          (ToRoomExcept (chat_room ''nowhere'') ''s3'', EvUserJoinedChat ''u2'' ''bob''),
          (ToRoom (chat_room ''c1''),
           EvNewMessage ''m2'' \<lparr>content = ''hi'', messageType = ''text'', sender = ''u1'', m_chat = ''c1'',
                                replyTo = None, isEdited = False, editedAt = None, isDeleted = False,
                                readBy = [], reactions = [], createdAt = 1000\<rparr>),
          (ToSocket ''s1'', EvMessageSent ''m2'')]"
  using joinChat_unguarded_fanout
    [of bob_socket "''c1''" "[(demo_env False 500, JoinChat bob_socket ''nowhere'')]"
        "run [(demo_env False 500, JoinChat bob_socket ''nowhere'')]
             (joinChat_handler bob_socket ''c1'' demo_state)"
        demo_state "demo_env False 1000" alice_socket "demo_send ''hi''" "''hi''" demo_chat alice]
  by (simp add: dispatch_def joinChat_handler_def join_room_def chat_room_def emit_def
      demo_state_def demo_chat_def isParticipant_def findById_def bob_socket_def alice_socket_def
      demo_send_def demo_env_def sendMessage_handler_def persist_and_broadcast_def
      monitorTextContent_def quickContentCheck_def checkSexualContent_def
      service_checkSexualContent_def validate_message_def trim_def is_ws_def Let_def)

section \<open>C5: the sender-only, fifteen-minute edit window\<close>

text \<open>
  C5. \<open>editMessage\<close> changes the message store only for a request of the message's sender
  made at most 15 minutes after the message was created. For a request that is valid
  otherwise (non-blank string content of at most 1000 characters, naming an existing
  message that is not deleted): a user who is not the sender is answered 403; the sender
  is answered 400 with the edit-time-limit message, the store unchanged, when more than
  15 minutes have passed; and the sender's edit within 15 minutes (14 minutes, say) is
  answered 200 and stored.
\<close>

theorem editMessage_sender_and_window:
  "(messages (snd (editMessage env req st)) \<noteq> messages st \<longrightarrow>
      (\<exists>i m c. params req ''id'' = Some i \<and> findById (messages st) i = Some m
          \<and> body_content req = JStr c
          \<and> sender m = req_userId req \<and> \<not> isDeleted m
          \<and> date_now env - createdAt m \<le> 15 * 60 * 1000))
   \<and> (body_content req = JStr c \<and> trim c \<noteq> [] \<and> length (trim c) \<le> 1000
        \<and> params req ''id'' = Some i \<and> findById (messages st) i = Some m \<and> \<not> isDeleted m \<longrightarrow>
        (sender m \<noteq> req_userId req \<longrightarrow>
           editMessage env req st = (reply 403 False ''You can only edit your own messages'' NoData, st))
      \<and> (sender m = req_userId req \<and> date_now env - createdAt m > 15 * 60 * 1000 \<longrightarrow>
           editMessage env req st = (reply 400 False ''Message edit time limit exceeded'' NoData, st))
      \<and> (sender m = req_userId req \<and> date_now env - createdAt m \<le> 15 * 60 * 1000
            \<and> (findById (chats st) (m_chat m) \<noteq> None \<or> \<not> io_attached env) \<longrightarrow>
           status (fst (editMessage env req st)) = 200
           \<and> findById (messages (snd (editMessage env req st))) i
               = Some (m\<lparr>content := trim c, isEdited := True, editedAt := Some (date_now env)\<rparr>)))"
proof (intro conjI impI)
  assume "messages (snd (editMessage env req st)) \<noteq> messages st"
  then show "\<exists>i m c. params req ''id'' = Some i \<and> findById (messages st) i = Some m
          \<and> body_content req = JStr c
          \<and> sender m = req_userId req \<and> \<not> isDeleted m
          \<and> date_now env - createdAt m \<le> 15 * 60 * 1000"
    by (rule editMessage_changes_only)
next
  assume a: "body_content req = JStr c \<and> trim c \<noteq> [] \<and> length (trim c) \<le> 1000
        \<and> params req ''id'' = Some i \<and> findById (messages st) i = Some m \<and> \<not> isDeleted m"
    and "sender m \<noteq> req_userId req"
  moreover from a have "c \<noteq> []" by (auto dest: trim_nonempty_imp)
  ultimately show "editMessage env req st
      = (reply 403 False ''You can only edit your own messages'' NoData, st)"
    by (simp add: editMessage_def)
next
  assume a: "body_content req = JStr c \<and> trim c \<noteq> [] \<and> length (trim c) \<le> 1000
        \<and> params req ''id'' = Some i \<and> findById (messages st) i = Some m \<and> \<not> isDeleted m"
    and "sender m = req_userId req \<and> date_now env - createdAt m > 15 * 60 * 1000"
  moreover from a have "c \<noteq> []" by (auto dest: trim_nonempty_imp)
  ultimately show "editMessage env req st
      = (reply 400 False ''Message edit time limit exceeded'' NoData, st)"
    by (simp add: editMessage_def editTimeLimit_def)
next
  assume a: "body_content req = JStr c \<and> trim c \<noteq> [] \<and> length (trim c) \<le> 1000
        \<and> params req ''id'' = Some i \<and> findById (messages st) i = Some m \<and> \<not> isDeleted m"
    and b: "sender m = req_userId req \<and> date_now env - createdAt m \<le> 15 * 60 * 1000
            \<and> (findById (chats st) (m_chat m) \<noteq> None \<or> \<not> io_attached env)"
  from a have c: "c \<noteq> []" by (auto dest: trim_nonempty_imp)
  from a b c show "status (fst (editMessage env req st)) = 200"
    by (auto simp: editMessage_def editTimeLimit_def Let_def reply_def split: option.splits)
  from a b c show "findById (messages (snd (editMessage env req st))) i
               = Some (m\<lparr>content := trim c, isEdited := True, editedAt := Some (date_now env)\<rparr>)"
    by (auto simp: editMessage_def editTimeLimit_def Let_def reply_def split: option.splits)
qed

theorem editMessage_sender_and_window_witness:
  "status (fst (editMessage (demo_env False (14 * 60 * 1000)) (demo_request ''id'' ''m1'' ''u2'' ''new'') demo_state)) = 200
   \<and> findById (messages (snd (editMessage (demo_env False (14 * 60 * 1000))
                                 (demo_request ''id'' ''m1'' ''u2'' ''new'') demo_state))) ''m1''
       = Some (demo_message\<lparr>content := ''new'', isEdited := True, editedAt := Some (14 * 60 * 1000)\<rparr>)
   \<and> editMessage (demo_env False (16 * 60 * 1000)) (demo_request ''id'' ''m1'' ''u2'' ''new'') demo_state
       = (reply 400 False ''Message edit time limit exceeded'' NoData, demo_state)
   \<and> editMessage (demo_env False (14 * 60 * 1000)) (demo_request ''id'' ''m1'' ''u1'' ''new'') demo_state
       = (reply 403 False ''You can only edit your own messages'' NoData, demo_state)"
  using editMessage_sender_and_window
      [of "demo_env False (14 * 60 * 1000)" "demo_request ''id'' ''m1'' ''u2'' ''new''" demo_state
          "''new''" "''m1''" demo_message]
    editMessage_sender_and_window
      [of "demo_env False (16 * 60 * 1000)" "demo_request ''id'' ''m1'' ''u2'' ''new''" demo_state
          "''new''" "''m1''" demo_message]
    editMessage_sender_and_window
      [of "demo_env False (14 * 60 * 1000)" "demo_request ''id'' ''m1'' ''u1'' ''new''" demo_state
          "''new''" "''m1''" demo_message]
  by (simp add: demo_env_def demo_request_def demo_state_def demo_message_def demo_chat_def
      findById_def trim_def is_ws_def)

section \<open>C6: edits pass the moderation check first\<close>

text \<open>
  C6. On the route that edits a message, the moderation middleware runs before the
  handler: when the classifier marks the new content unsafe, the request is answered
  with the blocked response (400) and the state, so the stored message, is unchanged;
  and whenever the route changes the message store, the request carried a non-blank
  string content that the classifier did not mark unsafe.
\<close>

theorem put_message_route_moderates_edit:
  "(body_content req = JStr c \<and> trim c \<noteq> []
      \<and> post_check env (trim c) = HttpResponse (DataObj (JBool True)) \<longrightarrow>
      put_message_route env req st =
        (reply 400 False
           ''Your message contains inappropriate content and has been blocked. Please keep conversations appropriate.''
           (DataModeration True ''sexual_content'' True), st))
   \<and> (messages (snd (put_message_route env req st)) \<noteq> messages st \<longrightarrow>
        (\<exists>c'. body_content req = JStr c' \<and> trim c' \<noteq> []
            \<and> post_check env (trim c') \<noteq> HttpResponse (DataObj (JBool True))))"
proof (intro conjI impI)
  assume a: "body_content req = JStr c \<and> trim c \<noteq> []
      \<and> post_check env (trim c) = HttpResponse (DataObj (JBool True))"
  then have "c \<noteq> []" by (auto dest: trim_nonempty_imp)
  with a show "put_message_route env req st =
        (reply 400 False
           ''Your message contains inappropriate content and has been blocked. Please keep conversations appropriate.''
           (DataModeration True ''sexual_content'' True), st)"
    by (simp add: put_message_route_def sexualContentMiddleware_def service_checkSexualContent_def)
next
  assume ch: "messages (snd (put_message_route env req st)) \<noteq> messages st"
  then have n: "sexualContentMiddleware env req = Next"
    and e: "messages (snd (controller_editMessage env req st)) \<noteq> messages st"
    by (auto simp: put_message_route_def split: middleware_result.splits)
  from controller_editMessage_changes_only [OF e] obtain c'
    where c': "body_content req = JStr c'" and t: "trim c' \<noteq> []"
    by blast
  from t have "c' \<noteq> []" by (rule trim_nonempty_imp)
  with n c' t have "post_check env (trim c') \<noteq> HttpResponse (DataObj (JBool True))"
    by (auto simp: sexualContentMiddleware_def service_checkSexualContent_def split: if_splits)
  with c' t show "\<exists>c'. body_content req = JStr c' \<and> trim c' \<noteq> []
            \<and> post_check env (trim c') \<noteq> HttpResponse (DataObj (JBool True))"
    by blast
qed

theorem put_message_route_moderates_edit_witness:
  "put_message_route (demo_env True 60000) (demo_request ''messageId'' ''m1'' ''u2'' ''bad text'') demo_state
     = (reply 400 False
          ''Your message contains inappropriate content and has been blocked. Please keep conversations appropriate.''
          (DataModeration True ''sexual_content'' True), demo_state)
   \<and> findById (messages (snd (put_message_route (demo_env False 60000)
                                 (demo_request ''messageId'' ''m1'' ''u2'' ''fine'') demo_state))) ''m1''
       = Some (demo_message\<lparr>content := ''fine'', isEdited := True, editedAt := Some 60000\<rparr>)"
  using put_message_route_moderates_edit
      [of "demo_request ''messageId'' ''m1'' ''u2'' ''bad text''" "''bad text''" "demo_env True 60000" demo_state]
  by (simp add: demo_env_def demo_request_def demo_state_def demo_message_def demo_chat_def
      put_message_route_def sexualContentMiddleware_def service_checkSexualContent_def
      controller_editMessage_def editTimeLimit_def emit_to_participants_def emit_def reply_def
      findById_def trim_def is_ws_def Let_def)

section \<open>C7: the disconnect of a superseded connection\<close>

text \<open>
  C7. When an identity connects a second time while its first connection is tracked,
  the identity's entry in \<open>connectedUsers\<close> is overwritten with the new socket id. When
  the first connection then disconnects, the entry is deleted and the user is marked
  offline: \<open>getUserStatus\<close> answers false and \<open>emitToUser\<close> emits nothing, although the
  second socket is still registered in \<open>userSockets\<close> and still in the user's room.
\<close>

theorem superseded_disconnect_drops_identity:
  assumes "sock_userId s1 = u" and "sock_userId s2 = u" and "sock_id s1 \<noteq> sock_id s2"
  shows "connectedUsers (connection e2 s2 (connection e1 s1 st)) u = Some (sock_id s2)
    \<and> \<not> getUserStatus (disconnect e3 s1 (connection e2 s2 (connection e1 s1 st))) u
    \<and> emitToUser u ev (disconnect e3 s1 (connection e2 s2 (connection e1 s1 st)))
        = disconnect e3 s1 (connection e2 s2 (connection e1 s1 st))
    \<and> userSockets (disconnect e3 s1 (connection e2 s2 (connection e1 s1 st))) (sock_id s2) = Some u
    \<and> sock_id s2 \<in> rooms (disconnect e3 s1 (connection e2 s2 (connection e1 s1 st))) (user_room u)
    \<and> (\<forall>usr. findById (users (disconnect e3 s1 (connection e2 s2 (connection e1 s1 st)))) u = Some usr
           \<longrightarrow> \<not> isOnline usr)"
  using assms
  by (auto simp: connection_def disconnect_def handleDisconnection_def getUserStatus_def
      emitToUser_def Let_def joinUserChats_def fold_join_room_fields fold_join_room_mono
      join_room_self updateUserOnlineStatus_users)

theorem superseded_disconnect_drops_identity_witness:
  "sock_id alice_socket \<noteq> sock_id alice_socket2
   \<and> connectedUsers (connection (demo_env False 2) alice_socket2
                      (connection (demo_env False 1) alice_socket demo_state)) ''u1'' = Some ''s2''
   \<and> \<not> getUserStatus (disconnect (demo_env False 3) alice_socket
                        (connection (demo_env False 2) alice_socket2
                          (connection (demo_env False 1) alice_socket demo_state))) ''u1''
   \<and> userSockets (disconnect (demo_env False 3) alice_socket
                        (connection (demo_env False 2) alice_socket2
                          (connection (demo_env False 1) alice_socket demo_state))) ''s2'' = Some ''u1''"
  using superseded_disconnect_drops_identity
    [of alice_socket "''u1''" alice_socket2 "demo_env False 2" "demo_env False 1" demo_state
        "demo_env False 3" "EvError ''x''"]
  by (simp add: alice_socket_def alice_socket2_def)

section \<open>C8: marking messages read is idempotent\<close>

text \<open>
  C8. Applying the mark-messages-read update a second time with the same identity, chat
  and message ids (at any later time) leaves every message exactly as the first
  application left it; and a message that names the identity in at most one read receipt
  before the update names it in at most one after it.
\<close>

theorem markMessagesRead_idempotent:
  "messages (markMessagesRead_handler e2 socket d (markMessagesRead_handler e1 socket d st))
     = messages (markMessagesRead_handler e1 socket d st)
   \<and> (list_all (\<lambda>(i, m). reads_of u m \<le> 1) (messages st) \<longrightarrow>
        list_all (\<lambda>(i, m). reads_of u m \<le> 1) (messages (markMessagesRead_handler e1 socket d st)))"
proof
  show "messages (markMessagesRead_handler e2 socket d (markMessagesRead_handler e1 socket d st))
          = messages (markMessagesRead_handler e1 socket d st)"
    by (simp add: markMessagesRead_handler_def updateMany_again mark_read_filter_after
        split: option.splits)
next
  show "list_all (\<lambda>(i, m). reads_of u m \<le> 1) (messages st) \<longrightarrow>
        list_all (\<lambda>(i, m). reads_of u m \<le> 1) (messages (markMessagesRead_handler e1 socket d st))"
    by (auto simp: markMessagesRead_handler_def reads_of_add split: option.splits
        intro!: updateMany_list_all)
qed

theorem markMessagesRead_idempotent_witness:
  "messages (markMessagesRead_handler (demo_env False 5) alice_socket
               \<lparr>rd_chatId = ''c1'', rd_messageIds = Some [''m1'']\<rparr> demo_state)
     = [(''m1'', demo_message\<lparr>readBy := [\<lparr>rr_user = ''u1'', readAt = 5\<rparr>]\<rparr>)]
   \<and> messages (markMessagesRead_handler (demo_env False 9) alice_socket
               \<lparr>rd_chatId = ''c1'', rd_messageIds = Some [''m1'']\<rparr>
               (markMessagesRead_handler (demo_env False 5) alice_socket
                  \<lparr>rd_chatId = ''c1'', rd_messageIds = Some [''m1'']\<rparr> demo_state))
     = [(''m1'', demo_message\<lparr>readBy := [\<lparr>rr_user = ''u1'', readAt = 5\<rparr>]\<rparr>)]
   \<and> list_all (\<lambda>(i, m). reads_of ''u1'' m \<le> 1)
        (messages (markMessagesRead_handler (demo_env False 5) alice_socket
               \<lparr>rd_chatId = ''c1'', rd_messageIds = Some [''m1'']\<rparr> demo_state))"
  using markMessagesRead_idempotent
    [of "demo_env False 9" alice_socket "\<lparr>rd_chatId = ''c1'', rd_messageIds = Some [''m1'']\<rparr>"
        "demo_env False 5" demo_state "''u1''"]
  by (simp add: markMessagesRead_handler_def updateMany_def mark_read_filter_def
      add_read_receipt_def addToSet_def emit_def demo_env_def alice_socket_def demo_state_def
      demo_message_def reads_of_def)

section \<open>C9: reactions toggle\<close>

text \<open>
  C9. For an accepted reaction request (an emoji is given, the message exists and is not
  deleted, the user is an active participant of its chat) whose (identity, emoji) pair
  is not among the message's reactions: one application appends exactly that reaction,
  and a second application with the same identity and emoji removes it again, so that
  the message store is as before the first. No application of the operation, accepted
  or not, introduces a repeated (identity, emoji) pair into a message whose pairs were
  distinct.
\<close>

theorem addReaction_toggles:
  "(body_emoji req \<noteq> [] \<and> params req ''messageId'' = Some i
      \<and> findById (messages st) i = Some m \<and> \<not> isDeleted m
      \<and> findById (chats st) (m_chat m) = Some ch \<and> isParticipant ch (req_userId req)
      \<and> (req_userId req, body_emoji req) \<notin> set (reaction_keys (reactions m)) \<longrightarrow>
        findById (messages (snd (addReaction e1 req st))) i
          = Some (m\<lparr>reactions := reactions m @
                       [\<lparr>r_user = req_userId req, r_emoji = body_emoji req, r_createdAt = date_now e1\<rparr>]\<rparr>)
      \<and> messages (snd (addReaction e2 req (snd (addReaction e1 req st)))) = messages st)
   \<and> (list_all (\<lambda>(i, m). distinct (reaction_keys (reactions m))) (messages st) \<longrightarrow>
        list_all (\<lambda>(i, m). distinct (reaction_keys (reactions m))) (messages (snd (addReaction e1 req st)))
      \<and> list_all (\<lambda>(i, m). distinct (reaction_keys (reactions m)))
          (messages (snd (addReaction e2 req (snd (addReaction e1 req st))))))"
proof (intro conjI impI)
  assume a: "body_emoji req \<noteq> [] \<and> params req ''messageId'' = Some i
      \<and> findById (messages st) i = Some m \<and> \<not> isDeleted m
      \<and> findById (chats st) (m_chat m) = Some ch \<and> isParticipant ch (req_userId req)
      \<and> (req_userId req, body_emoji req) \<notin> set (reaction_keys (reactions m))"
  then have fresh: "(req_userId req, body_emoji req) \<notin> set (reaction_keys (reactions m))"
    by simp
  from a have same: "AList.update i m (messages st) = messages st"
    by (simp add: findById_def update_triv)
  from a show "findById (messages (snd (addReaction e1 req st))) i
          = Some (m\<lparr>reactions := reactions m @
                       [\<lparr>r_user = req_userId req, r_emoji = body_emoji req, r_createdAt = date_now e1\<rparr>]\<rparr>)"
    by (simp add: addReaction_def Let_def toggle_add)
  from a same toggle_twice [OF fresh, of "date_now e2" "date_now e1"]
  show "messages (snd (addReaction e2 req (snd (addReaction e1 req st)))) = messages st"
    by (simp add: addReaction_def Let_def)
next
  assume d: "list_all (\<lambda>(i, m). distinct (reaction_keys (reactions m))) (messages st)"
  then show d1: "list_all (\<lambda>(i, m). distinct (reaction_keys (reactions m)))
                   (messages (snd (addReaction e1 req st)))"
    by (rule addReaction_keeps_distinct)
  then show "list_all (\<lambda>(i, m). distinct (reaction_keys (reactions m)))
          (messages (snd (addReaction e2 req (snd (addReaction e1 req st)))))"
    by (rule addReaction_keeps_distinct)
qed

theorem addReaction_toggles_witness:
  "findById (messages (snd (addReaction (demo_env False 7) (demo_request ''messageId'' ''m1'' ''u1'' [])
                              demo_state))) ''m1''
     = Some (demo_message\<lparr>reactions := [\<lparr>r_user = ''u1'', r_emoji = ''+1'', r_createdAt = 7\<rparr>]\<rparr>)
   \<and> messages (snd (addReaction (demo_env False 8) (demo_request ''messageId'' ''m1'' ''u1'' [])
                  (snd (addReaction (demo_env False 7) (demo_request ''messageId'' ''m1'' ''u1'' [])
                          demo_state))))
     = [(''m1'', demo_message)]"
  using addReaction_toggles
    [of "demo_request ''messageId'' ''m1'' ''u1'' []" "''m1''" demo_state demo_message demo_chat
        "demo_env False 7" "demo_env False 8"]
  by (simp add: demo_request_def demo_state_def demo_message_def demo_chat_def demo_env_def
      findById_def isParticipant_def reaction_keys_def)

section \<open>C10: the guardian notification is deferred and contained\<close>

text \<open>
  C10. When a text message is blocked, the listener answers the sender and only queues
  the notification task: no mail is sent and no incident is logged on the response
  path. The task, when the event loop runs it, always completes without an exception
  and without emitting to any socket or touching messages and chats. If the sender has
  no guardian address on file it changes nothing at all; if the mail transport fails,
  the failure is caught: no mail is recorded and nothing reaches the sender.
\<close>

theorem guardian_notification_deferred:
  "(sd_chatId d \<noteq> [] \<and> sd_content d = JStr c
      \<and> (sd_messageType d = None \<or> sd_messageType d = Some ''text'')
      \<and> monitorTextContent (post_check env) c (sock_userId socket) (sd_chatId d) = Inr (v, q)
      \<and> blocked v \<longrightarrow>
        immediates (sendMessage_handler env socket d st)
          = immediates st @ [ParentNotification c (sock_userId socket) (sd_chatId d) ''text'']
      \<and> mails_sent (sendMessage_handler env socket d st) = mails_sent st
      \<and> incident_log (sendMessage_handler env socket d st) = incident_log st
      \<and> outbox (sendMessage_handler env socket d st)
          = outbox st @ [(ToSocket (sock_id socket), EvMessageBlocked (mon_reason v) (mon_message v))])
   \<and> (\<exists>st'. run_parent_notification env' t st0 = Inr st'
          \<and> outbox st' = outbox st0 \<and> messages st' = messages st0 \<and> chats st' = chats st0)
   \<and> (findById (users st0) senderId = Some sndr
        \<and> (parentEmail sndr = None \<or> parentEmail sndr = Some []) \<longrightarrow>
        run_parent_notification env' (ParentNotification c' senderId chatId kind) st0 = Inr st0)
   \<and> (findById (users st0) senderId = Some sndr \<and> parentEmail sndr = Some pe \<and> pe \<noteq> []
        \<and> \<not> mail_delivers env' pe \<longrightarrow>
        (\<exists>st'. run_parent_notification env' (ParentNotification c' senderId chatId kind) st0 = Inr st'
            \<and> mails_sent st' = mails_sent st0 \<and> outbox st' = outbox st0
            \<and> connectedUsers st' = connectedUsers st0))"
proof (intro conjI impI)
  assume a: "sd_chatId d \<noteq> [] \<and> sd_content d = JStr c
      \<and> (sd_messageType d = None \<or> sd_messageType d = Some ''text'')
      \<and> monitorTextContent (post_check env) c (sock_userId socket) (sd_chatId d) = Inr (v, q)
      \<and> blocked v"
  then have q: "q = [ParentNotification c (sock_userId socket) (sd_chatId d) ''text'']"
    by (auto dest: monitor_blocked(2))
  from a have a1: "sd_chatId d \<noteq> []" and a2: "sd_content d = JStr c"
    and a3: "sd_messageType d = None \<or> sd_messageType d = Some ''text''"
    and a4: "monitorTextContent (post_check env) c (sock_userId socket) (sd_chatId d) = Inr (v, q)"
    and a5: "blocked v"
    by blast+
  have s: "sendMessage_handler env socket d st
         = st\<lparr>outbox := outbox st @ [(ToSocket (sock_id socket),
                                        EvMessageBlocked (mon_reason v) (mon_message v))],
              immediates := immediates st @ q\<rparr>"
    by (rule sendMessage_blocked_state [OF a1 a2 a3 a4 a5])
  from s q show "immediates (sendMessage_handler env socket d st)
          = immediates st @ [ParentNotification c (sock_userId socket) (sd_chatId d) ''text'']"
    by simp
  from s show "mails_sent (sendMessage_handler env socket d st) = mails_sent st" by simp
  from s show "incident_log (sendMessage_handler env socket d st) = incident_log st" by simp
  from s show "outbox (sendMessage_handler env socket d st)
          = outbox st @ [(ToSocket (sock_id socket), EvMessageBlocked (mon_reason v) (mon_message v))]"
    by simp
next
  from run_parent_notification_frame [of env' t st0]
  show "\<exists>st'. run_parent_notification env' t st0 = Inr st'
          \<and> outbox st' = outbox st0 \<and> messages st' = messages st0 \<and> chats st' = chats st0"
    by blast
next
  assume "findById (users st0) senderId = Some sndr
        \<and> (parentEmail sndr = None \<or> parentEmail sndr = Some [])"
  then show "run_parent_notification env' (ParentNotification c' senderId chatId kind) st0 = Inr st0"
    by (auto simp: run_parent_notification_def)
next
  assume "findById (users st0) senderId = Some sndr \<and> parentEmail sndr = Some pe \<and> pe \<noteq> []
        \<and> \<not> mail_delivers env' pe"
  then show "\<exists>st'. run_parent_notification env' (ParentNotification c' senderId chatId kind) st0 = Inr st'
            \<and> mails_sent st' = mails_sent st0 \<and> outbox st' = outbox st0
            \<and> connectedUsers st' = connectedUsers st0"
    by (auto simp: run_parent_notification_def Let_def sendParentContentAlert_def split: sum.splits)
qed

theorem guardian_notification_deferred_witness:
  "immediates (sendMessage_handler (demo_env True 1000) alice_socket (demo_send ''bad text'') demo_state)
     = [ParentNotification ''bad text'' ''u1'' ''c1'' ''text'']
   \<and> mails_sent (sendMessage_handler (demo_env True 1000) alice_socket (demo_send ''bad text'') demo_state) = []
   \<and> run_parent_notification (demo_env True 1001) (ParentNotification ''bad text'' ''u1'' ''c1'' ''text'') demo_state
       = Inr (demo_state\<lparr>incident_log :=
                [\<lparr>inc_type = ''text'', inc_userId = ''u1'', inc_chatId = ''c1'', inc_content = ''bad text...'',
                  parentNotified = True, inc_timestamp = 1001\<rparr>]\<rparr>)
   \<and> run_parent_notification (demo_env True 1001) (ParentNotification ''bad text'' ''u2'' ''c1'' ''text'') demo_state
       = Inr demo_state"
  using guardian_notification_deferred
    [of "demo_send ''bad text''" "''bad text''" "demo_env True 1000" alice_socket
        "\<lparr>blocked = True, mon_reason = Some ''sexual_content'',
          mon_message = Some ''Your message contains inappropriate content and has been blocked. Please keep conversations appropriate.'',
          approved = None\<rparr>"
        "[ParentNotification ''bad text'' ''u1'' ''c1'' ''text'']" demo_state
        "demo_env True 1001" "ParentNotification ''bad text'' ''u1'' ''c1'' ''text''" demo_state
        "''u2''" bob "''parent@example.org''" "''bad text''" "''c1''" "''text''"]
  by (simp add: demo_send_def demo_env_def alice_socket_def demo_state_def demo_chat_def alice_def
      bob_def findById_def monitorTextContent_def quickContentCheck_def checkSexualContent_def
      service_checkSexualContent_def sendParentNotificationAsync_def trim_def is_ws_def
      run_parent_notification_def chatParticipants_of_def
      sendParentContentAlert_def Let_def)

end
